theory Spec2Isabelle
  imports Main "HOL-Library.Sublist" "HOL-Library.AList"
begin

section \<open>String helpers (utils.js)\<close>

text \<open>
  JavaScript strings are modelled as \<open>string\<close>. A value that is not a string
  (\<open>undefined\<close>, \<open>null\<close>, a number) is read by \<open>asString\<close> as the empty string, so
  such arguments are represented by \<open>''''\<close>. White space and letter case are those of
  ASCII.
\<close>

definition isSpace :: "char \<Rightarrow> bool" where
  "isSpace c = (c \<in> set [CHR 0x09, CHR 0x0A, CHR 0x0B, CHR 0x0C, CHR 0x0D, CHR '' ''])"

definition trim :: "string \<Rightarrow> string" where
  "trim s = rev (dropWhile isSpace (rev (dropWhile isSpace s)))"

definition asString :: "string \<Rightarrow> string" where
  "asString v = trim v"

definition lowerChar :: "char \<Rightarrow> char" where
  "lowerChar c =
     (case map_of (zip ''ABCDEFGHIJKLMNOPQRSTUVWXYZ'' ''abcdefghijklmnopqrstuvwxyz'') c of
        Some d \<Rightarrow> d
      | None \<Rightarrow> c)"

definition toLowerCase :: "string \<Rightarrow> string" where
  "toLowerCase s = map lowerChar s"

definition includesStr :: "string \<Rightarrow> string \<Rightarrow> bool" where
  "includesStr s p = sublist p s"

definition startsWith :: "string \<Rightarrow> string \<Rightarrow> bool" where
  "startsWith s p = prefix p s"

section \<open>Plain objects used as dictionaries\<close>

text \<open>
  \<open>watermarks\<close>, \<open>slots\<close>, \<open>board.tasks\<close> and the account tables are plain objects
  indexed by a string. The model keeps the own properties of such an object (a map or
  an association list) and adds what the prototype does. Reading \<open>obj[k]\<close> yields the
  own property when there is one; otherwise, for the names of the members of
  \<open>Object.prototype\<close>, the inherited member, a function or (for \<open>__proto__\<close>) the
  prototype itself, which is truthy and has none of the fields the code reads; otherwise
  \<open>undefined\<close>. Writing \<open>obj[k] = v\<close> makes or replaces an own property, except
  that \<open>obj['__proto__'] = v\<close> on an object without such an own property sets the
  prototype and leaves the own properties, and so what \<open>JSON.stringify\<close> writes, as
  they are. (\<open>JSON.parse\<close> does make \<open>__proto__\<close> an own property when the file has
  that key.) Assignments to fields of an inherited member change that member, not the
  files; the model takes \<open>Object.prototype\<close> to have its standard members at every call
  and leaves such changes out.
\<close>

definition objectPrototypeMembers :: "string list" where
  "objectPrototypeMembers =
     [''constructor'', ''__defineGetter__'', ''__defineSetter__'', ''hasOwnProperty'',
      ''__lookupGetter__'', ''__lookupSetter__'', ''isPrototypeOf'',
      ''propertyIsEnumerable'', ''toString'', ''valueOf'', ''__proto__'',
      ''toLocaleString'']"

datatype 'v lookup = Own 'v | Inherited | Undefined

text \<open>\<open>readProp (own k) k\<close> is \<open>obj[k]\<close>, where \<open>own k\<close> is the own property, if any.\<close>

definition readProp :: "'v option \<Rightarrow> string \<Rightarrow> 'v lookup" where
  "readProp own k =
     (case own of
        Some v \<Rightarrow> Own v
      | None \<Rightarrow> if k \<in> set objectPrototypeMembers then Inherited else Undefined)"

text \<open>Whether \<open>obj[k] = v\<close> makes or replaces an own property.\<close>

definition assignsOwn :: "'v option \<Rightarrow> string \<Rightarrow> bool" where
  "assignsOwn own k = (\<not> (k = ''__proto__'' \<and> own = None))"

definition setProp :: "(string \<rightharpoonup> 'v) \<Rightarrow> string \<Rightarrow> 'v \<Rightarrow> (string \<rightharpoonup> 'v)" where
  "setProp obj k v = (if assignsOwn (obj k) k then obj(k \<mapsto> v) else obj)"

definition setPropList :: "(string \<times> 'v) list \<Rightarrow> string \<Rightarrow> 'v \<Rightarrow> (string \<times> 'v) list" where
  "setPropList obj k v = (if assignsOwn (map_of obj k) k then AList.update k v obj else obj)"

text \<open>
  A JavaScript number where the code may receive any: an integer (time stamps are
  whole milliseconds), \<open>NaN\<close> or an infinity. \<open>orNow x now\<close> is \<open>x || now\<close>, and
  \<open>jsonNumber\<close> is what \<open>JSON.stringify\<close> followed by \<open>JSON.parse\<close> makes of it: \<open>None\<close>
  stands for \<open>null\<close>.
\<close>

datatype jsNumber = Finite int | NaN | PosInfinity | NegInfinity

definition orNow :: "jsNumber \<Rightarrow> int \<Rightarrow> jsNumber" where
  "orNow x now =
     (case x of
        Finite n \<Rightarrow> if n = 0 then Finite now else Finite n
      | NaN \<Rightarrow> Finite now
      | PosInfinity \<Rightarrow> PosInfinity
      | NegInfinity \<Rightarrow> NegInfinity)"

definition jsonNumber :: "jsNumber \<Rightarrow> int option" where
  "jsonNumber x = (case x of Finite n \<Rightarrow> Some n | NaN \<Rightarrow> None
                   | PosInfinity \<Rightarrow> None | NegInfinity \<Rightarrow> None)"

section \<open>Cycle limiter (state.js, class TeamChatState)\<close>

text \<open>
  The fields of the room configuration that \<open>getCycle\<close> reads;
  \<open>maxDispatchPerCycle\<close> is \<open>autopilot.maxDispatchPerCycle\<close>, \<open>None\<close> for \<open>null\<close>.
\<close>

record roomConfig =
  cycleTtlSeconds :: int
  maxTurnsPerCycle :: int
  maxDispatchPerCycle :: "int option"

record cycle =
  turnsUsed :: int
  dispatchCount :: int
  maxTurns :: int
  maxDispatch :: int
  ttlMs :: int
  createdAt :: int
  lastInboundAt :: int
  lastActivityAt :: int

text \<open>
  \<open>this.cycles\<close>, a Map from room id to cycle object. The methods mutate the object
  they get from the map; the model stores the updated cycle back and returns the new
  map. \<open>persistCycles\<close> only writes a snapshot of the map to disk and is left out.
\<close>

type_synonym cycles = "string \<rightharpoonup> cycle"

definition getCycle :: "cycles \<Rightarrow> string \<Rightarrow> roomConfig \<Rightarrow> int \<Rightarrow> cycle \<times> cycles" where
  "getCycle cs roomId roomConfig now =
     (let ttl = cycleTtlSeconds roomConfig * 1000;
          mt = maxTurnsPerCycle roomConfig;
          md = (case maxDispatchPerCycle roomConfig of None \<Rightarrow> mt | Some d \<Rightarrow> d);
          created = \<lparr>turnsUsed = 0, dispatchCount = 0, maxTurns = mt, maxDispatch = md,
                     ttlMs = ttl, createdAt = now, lastInboundAt = 0,
                     lastActivityAt = now\<rparr>
      in case cs roomId of
           None \<Rightarrow> (created, cs(roomId \<mapsto> created))
         | Some existing \<Rightarrow>
             if now - createdAt existing > ttl then (created, cs(roomId \<mapsto> created))
             else (let e = existing\<lparr>maxTurns := mt, maxDispatch := md, ttlMs := ttl\<rparr>
                   in (e, cs(roomId \<mapsto> e))))"

definition DEBOUNCE_MS :: int where
  "DEBOUNCE_MS = 5000"

definition registerInboundExternal ::
  "cycles \<Rightarrow> string \<Rightarrow> roomConfig \<Rightarrow> int \<Rightarrow> cycle \<times> cycles" where
  "registerInboundExternal cs roomId roomConfig now =
     (let (c, cs1) = getCycle cs roomId roomConfig now;
          shouldReset = (lastInboundAt c = 0 \<or> now - lastInboundAt c \<ge> DEBOUNCE_MS);
          c1 = (if shouldReset then c\<lparr>turnsUsed := 0, dispatchCount := 0\<rparr> else c);
          c2 = c1\<lparr>lastInboundAt := now, lastActivityAt := now\<rparr>
      in (c2, cs1(roomId \<mapsto> c2)))"

record turnResult =
  r_ok :: bool
  r_turnsUsed :: int
  r_maxTurns :: int

definition tryConsumeTurn ::
  "cycles \<Rightarrow> string \<Rightarrow> roomConfig \<Rightarrow> int \<Rightarrow> turnResult \<times> cycles" where
  "tryConsumeTurn cs roomId roomConfig now =
     (let (c, cs1) = getCycle cs roomId roomConfig now
      in if turnsUsed c \<ge> maxTurns c
         then (\<lparr>r_ok = False, r_turnsUsed = turnsUsed c, r_maxTurns = maxTurns c\<rparr>, cs1)
         else (let c1 = c\<lparr>turnsUsed := turnsUsed c + 1, lastActivityAt := now\<rparr>
               in (\<lparr>r_ok = True, r_turnsUsed = turnsUsed c1, r_maxTurns = maxTurns c1\<rparr>,
                   cs1(roomId \<mapsto> c1))))"

record dispatchResult =
  d_ok :: bool
  d_dispatchCount :: int
  d_maxDispatch :: int

definition tryConsumeDispatch ::
  "cycles \<Rightarrow> string \<Rightarrow> roomConfig \<Rightarrow> int \<Rightarrow> dispatchResult \<times> cycles" where
  "tryConsumeDispatch cs roomId roomConfig now =
     (let (c, cs1) = getCycle cs roomId roomConfig now
      in if dispatchCount c \<ge> maxDispatch c
         then (\<lparr>d_ok = False, d_dispatchCount = dispatchCount c,
                d_maxDispatch = maxDispatch c\<rparr>, cs1)
         else (let c1 = c\<lparr>dispatchCount := dispatchCount c + 1, lastActivityAt := now\<rparr>
               in (\<lparr>d_ok = True, d_dispatchCount = dispatchCount c1,
                    d_maxDispatch = maxDispatch c1\<rparr>,
                   cs1(roomId \<mapsto> c1))))"

definition resetCycle :: "cycles \<Rightarrow> string \<Rightarrow> cycles" where
  "resetCycle cs roomId = cs(roomId := None)"


text \<open>
  A run of \<open>tryConsumeTurn\<close> and \<open>tryConsumeDispatch\<close> calls, each at its own time,
  used to state what happens between two external-input registrations.
\<close>

datatype consume = ConsumeTurn int | ConsumeDispatch int

fun consumeTime :: "consume \<Rightarrow> int" where
  "consumeTime (ConsumeTurn t) = t"
| "consumeTime (ConsumeDispatch t) = t"

fun consumeAll :: "cycles \<Rightarrow> string \<Rightarrow> roomConfig \<Rightarrow> consume list \<Rightarrow> cycles" where
  "consumeAll cs roomId cfg [] = cs"
| "consumeAll cs roomId cfg (ConsumeTurn t # xs) =
     consumeAll (snd (tryConsumeTurn cs roomId cfg t)) roomId cfg xs"
| "consumeAll cs roomId cfg (ConsumeDispatch t # xs) =
     consumeAll (snd (tryConsumeDispatch cs roomId cfg t)) roomId cfg xs"

section \<open>Environment of the file-backed components\<close>

text \<open>
  What one call of a file-backed operation gets from outside the program:
  \<open>clock\<close> is the value of \<open>Date.now()\<close>, \<open>rand\<close> the suffix that
  \<open>Math.random().toString(36).slice(2, 6)\<close> yields, \<open>lockOpens i\<close> tells whether the
  \<open>i\<close>-th \<open>openSync(lockPath, "wx")\<close> of \<open>withFileLock\<close> succeeds, \<open>writeOk\<close> whether
  the write of the data file succeeds (\<open>appendFileSync\<close>, \<open>writeFileSync\<close>, or the
  \<open>writeJsonAtomic\<close> of a watermark, task or history file), \<open>boardOk\<close> whether the
  \<open>writeJsonAtomic\<close> of \<open>board.json\<close> succeeds and \<open>rmOk\<close> whether \<open>rmSync\<close> removes the
  active task file. Creating directories (\<open>mkdirSync\<close>) is taken to succeed, and
  directories are not part of the state.
\<close>

record io =
  clock :: int
  rand :: string
  lockOpens :: "nat \<Rightarrow> bool"
  writeOk :: bool
  boardOk :: bool
  rmOk :: bool

definition LOCK_RETRIES :: nat where
  "LOCK_RETRIES = 40"

text \<open>The retry loop of \<open>withFileLock\<close>: attempt \<open>i\<close>, with \<open>k\<close> attempts left.\<close>

primrec tryOpen :: "(nat \<Rightarrow> bool) \<Rightarrow> nat \<Rightarrow> nat \<Rightarrow> bool" where
  "tryOpen opens i 0 = False"
| "tryOpen opens i (Suc k) = (if opens i then True else tryOpen opens (Suc i) k)"

definition lockAcquired :: "(nat \<Rightarrow> bool) \<Rightarrow> bool" where
  "lockAcquired opens = tryOpen opens 0 LOCK_RETRIES"

text \<open>
  \<open>withFileLock lockPath fn\<close>: \<open>fn\<close> runs on the files only when the lock was
  acquired; \<open>fn s = None\<close> stands for \<open>fn\<close> throwing, which \<open>withFileLock\<close> catches.
  The result tells whether \<open>fn\<close> ran to its end.
\<close>

definition withFileLock :: "(nat \<Rightarrow> bool) \<Rightarrow> ('s \<Rightarrow> 's option) \<Rightarrow> 's \<Rightarrow> bool \<times> 's" where
  "withFileLock opens fn s =
     (if lockAcquired opens
      then (case fn s of Some s' \<Rightarrow> (True, s') | None \<Rightarrow> (False, s))
      else (False, s))"

text \<open>
  \<open>writeJsonAtomic\<close> never throws: it returns whether the file was replaced. \<open>upd\<close> is
  the replacement of the file at \<open>filePath\<close> by the new data.
\<close>

definition writeJsonAtomic :: "bool \<Rightarrow> ('s \<Rightarrow> 's) \<Rightarrow> 's \<Rightarrow> bool \<times> 's" where
  "writeJsonAtomic ok upd s = (if ok then (True, upd s) else (False, s))"

definition sanitizeRoomId :: "string \<Rightarrow> string" where
  "sanitizeRoomId roomId =
     (let s = map (\<lambda>c. if c \<in> set (''abcdefghijklmnopqrstuvwxyz''
                                     @ ''ABCDEFGHIJKLMNOPQRSTUVWXYZ'' @ ''0123456789_-'')
                         then c else CHR ''_'') (asString roomId)
      in if s = [] then ''unknown'' else s)"

section \<open>Message cache (message-cache.js, class MessageCache)\<close>

record message =
  m_id :: string
  m_ts :: int
  m_sender :: string
  m_senderId :: string
  m_sourceAgent :: string
  m_content :: string
  m_mentions :: "string list"
  m_type :: string

text \<open>
  The draft given to \<open>appendMessage\<close>. \<open>p_ts\<close> is \<open>Number(params.ts)\<close>, an integer, or
  \<open>None\<close> when that is \<open>NaN\<close> (infinite time stamps are not represented); \<open>p_mentions\<close>
  is \<open>[]\<close> when \<open>params.mentions\<close> is not an array.
\<close>

record draft =
  p_id :: string
  p_ts :: "int option"
  p_sender :: string
  p_senderId :: string
  p_sourceAgent :: string
  p_content :: string
  p_mentions :: "string list"
  p_type :: string

text \<open>A watermark as \<open>watermarks.json\<close> holds it; \<open>lastReadTs = None\<close> is \<open>null\<close>.\<close>

record watermark =
  lastReadId :: string
  lastReadTs :: "int option"

text \<open>
  The files of one room directory: \<open>messages.jsonl\<close> as the list of the messages its
  lines parse to (a missing file has none; lines that do not parse are skipped by
  \<open>readAllMessages\<close> and not represented), and \<open>watermarks.json\<close> as the own properties
  of the object it parses to, a map from agent id to watermark (a missing file is the
  empty map). The directories are keyed by
  \<open>sanitizeRoomId roomId\<close>. \<open>seqCounter\<close> is the module variable \<open>_seqCounter\<close>.
\<close>

record roomFiles =
  messagesFile :: "message list"
  watermarksFile :: "string \<rightharpoonup> watermark"

record cacheStore =
  rooms :: "string \<Rightarrow> roomFiles"
  seqCounter :: nat

record messageCache =
  maxMessages :: int
  cleanupTtlMs :: int
  compactThreshold :: int

text \<open>The constructor option \<open>v\<close> read as \<open>v || d\<close>.\<close>

definition orDefault :: "int option \<Rightarrow> int \<Rightarrow> int" where
  "orDefault v d = (case v of None \<Rightarrow> d | Some n \<Rightarrow> if n = 0 then d else n)"

definition newMessageCache :: "int option \<Rightarrow> int option \<Rightarrow> int option \<Rightarrow> messageCache" where
  "newMessageCache optMaxMessages optCleanupTtlSeconds optCompactThreshold =
     \<lparr>maxMessages = orDefault optMaxMessages 500,
      cleanupTtlMs = orDefault optCleanupTtlSeconds 3600 * 1000,
      compactThreshold = orDefault optCompactThreshold 200\<rparr>"

fun showNat :: "nat \<Rightarrow> string" where
  "showNat n =
     (if n < 10 then [''0123456789'' ! n]
      else showNat (n div 10) @ [''0123456789'' ! (n mod 10)])"

declare showNat.simps [simp del]

definition showInt :: "int \<Rightarrow> string" where
  "showInt i = (if i < 0 then CHR ''-'' # showNat (nat (- i)) else showNat (nat i))"

definition padStart :: "nat \<Rightarrow> char \<Rightarrow> string \<Rightarrow> string" where
  "padStart n c s = replicate (n - length s) c @ s"

definition generateMessageId :: "io \<Rightarrow> nat \<Rightarrow> int \<Rightarrow> string \<times> nat" where
  "generateMessageId e counter ts =
     (let counter' = (counter + 1) mod 100000;
          stamp = showInt (if ts = 0 then clock e else ts);
          seq = padStart 5 (CHR ''0'') (showNat counter')
      in (''m_'' @ stamp @ ''_'' @ seq @ ''_'' @ rand e, counter'))"

definition appendLine :: "string \<Rightarrow> message \<Rightarrow> (string \<Rightarrow> roomFiles) \<Rightarrow> (string \<Rightarrow> roomFiles)" where
  "appendLine roomId record fs =
     (let dir = sanitizeRoomId roomId
      in fs(dir := (fs dir)\<lparr>messagesFile := messagesFile (fs dir) @ [record]\<rparr>))"

text \<open>
  The part of \<open>appendMessage\<close> that builds \<open>record\<close> from the draft; it returns the
  record and the new value of \<open>_seqCounter\<close>, which \<open>generateMessageId\<close> advances only
  when the draft carries no id.
\<close>

definition buildRecord :: "io \<Rightarrow> nat \<Rightarrow> draft \<Rightarrow> message \<times> nat" where
  "buildRecord e counter params =
     (let ts = (case p_ts params of
                  None \<Rightarrow> clock e
                | Some n \<Rightarrow> if n = 0 then clock e else n);
          (newId, counter') =
            (if asString (p_id params) \<noteq> [] then (asString (p_id params), counter)
             else generateMessageId e counter ts)
      in (\<lparr>m_id = newId, m_ts = ts,
           m_sender = (if asString (p_sender params) \<noteq> [] then asString (p_sender params)
                       else ''unknown''),
           m_senderId = asString (p_senderId params),
           m_sourceAgent = asString (p_sourceAgent params),
           m_content = asString (p_content params),
           m_mentions = filter (\<lambda>x. x \<noteq> []) (p_mentions params),
           m_type = (if asString (p_type params) \<noteq> [] then asString (p_type params)
                     else ''message'')\<rparr>,
          counter'))"

definition appendMessage ::
  "io \<Rightarrow> cacheStore \<Rightarrow> string \<Rightarrow> draft \<Rightarrow> message option \<times> cacheStore" where
  "appendMessage e st roomId params =
     (if roomId = [] then (None, st)
      else
        let rawContent = asString (p_content params)
        in if includesStr rawContent ''[UNTRUSTED DATA''
              \<or> includesStr rawContent ''<relevant-memories>''
           then (None, st)
           else
             let (record, counter') = buildRecord e (seqCounter st) params;
                 (ran, fs') = withFileLock (lockOpens e)
                    (\<lambda>fs. if writeOk e then Some (appendLine roomId record fs) else None)
                    (rooms st)
             in (Some record, st\<lparr>rooms := fs', seqCounter := counter'\<rparr>))"

definition readAllMessages :: "cacheStore \<Rightarrow> string \<Rightarrow> message list" where
  "readAllMessages st roomId = messagesFile (rooms st (sanitizeRoomId roomId))"

definition getWatermarks :: "cacheStore \<Rightarrow> string \<Rightarrow> (string \<rightharpoonup> watermark)" where
  "getWatermarks st roomId = watermarksFile (rooms st (sanitizeRoomId roomId))"

text \<open>\<open>Array.prototype.findIndex\<close>: the first index whose element satisfies \<open>P\<close>, else \<open>-1\<close>.\<close>

fun findIndexFrom :: "('a \<Rightarrow> bool) \<Rightarrow> 'a list \<Rightarrow> int \<Rightarrow> int" where
  "findIndexFrom P [] i = - 1"
| "findIndexFrom P (x # xs) i = (if P x then i else findIndexFrom P xs (i + 1))"

definition findIndex :: "('a \<Rightarrow> bool) \<Rightarrow> 'a list \<Rightarrow> int" where
  "findIndex P xs = findIndexFrom P xs 0"

definition getUnreadMessages :: "cacheStore \<Rightarrow> string \<Rightarrow> string \<Rightarrow> message list" where
  "getUnreadMessages st roomId agentId =
     (if roomId = [] \<or> agentId = [] then []
      else
        let allMessages = readAllMessages st roomId;
            agentWatermark = readProp (getWatermarks st roomId agentId) agentId;
            readTs = (case agentWatermark of
                        Own w \<Rightarrow> (case lastReadTs w of None \<Rightarrow> 0 | Some n \<Rightarrow> n)
                      | Inherited \<Rightarrow> 0
                      | Undefined \<Rightarrow> 0);
            readId = (case agentWatermark of
                        Own w \<Rightarrow> lastReadId w
                      | Inherited \<Rightarrow> []
                      | Undefined \<Rightarrow> []);
            tsIdx = findIndex (\<lambda>m. m_ts m > readTs) allMessages;
            tsStart = (if tsIdx < 0 then int (length allMessages) else tsIdx);
            startIdx =
              (if readId \<noteq> []
               then (let idx = findIndex (\<lambda>m. m_id m = readId) allMessages
                     in if idx \<ge> 0 then idx + 1
                        else if readTs > 0 then tsStart
                        else 0)
               else if readTs > 0 then tsStart
               else 0)
        in filter (\<lambda>m. m_sourceAgent m \<noteq> agentId) (drop (nat startIdx) allMessages))"

text \<open>
  \<open>markAsRead\<close>: \<open>upToTs\<close> is \<open>Number(upToTs)\<close>; the entry holds
  \<open>Number(upToTs) || Date.now()\<close>, and the file what \<open>JSON.stringify\<close> makes of it. The
  stored \<open>lastReadId\<close> is read off \<open>watermarks[agentId]\<close>, which an inherited member
  answers without that field.
\<close>

definition markAsRead ::
  "io \<Rightarrow> cacheStore \<Rightarrow> string \<Rightarrow> string \<Rightarrow> string \<Rightarrow> jsNumber \<Rightarrow> cacheStore" where
  "markAsRead e st roomId agentId upToMessageId upToTs =
     (if roomId = [] \<or> agentId = [] then st
      else
        let fn = (\<lambda>fs.
              let dir = sanitizeRoomId roomId;
                  watermarks = watermarksFile (fs dir);
                  entry = \<lparr>lastReadId =
                             (if asString upToMessageId \<noteq> [] then asString upToMessageId
                              else case readProp (watermarks agentId) agentId of
                                     Own w \<Rightarrow> lastReadId w
                                   | Inherited \<Rightarrow> []
                                   | Undefined \<Rightarrow> []),
                           lastReadTs = jsonNumber (orNow upToTs (clock e))\<rparr>
              in Some (snd (writeJsonAtomic (writeOk e)
                      (\<lambda>fs. fs(dir := (fs dir)\<lparr>watermarksFile :=
                                setProp watermarks agentId entry\<rparr>))
                      fs)))
        in st\<lparr>rooms := snd (withFileLock (lockOpens e) fn (rooms st))\<rparr>)"

definition markAllAsRead :: "io \<Rightarrow> cacheStore \<Rightarrow> string \<Rightarrow> string \<Rightarrow> cacheStore" where
  "markAllAsRead e st roomId agentId =
     (let allMessages = readAllMessages st roomId
      in if allMessages = [] then st
         else markAsRead e st roomId agentId (m_id (last allMessages))
                (Finite (m_ts (last allMessages))))"

text \<open>
  The loop of \<open>cleanup\<close> over the member agents; the accumulator \<open>None\<close> is
  \<open>Infinity\<close>. A member whose \<open>watermarks[agentId]\<close> is missing, or has a \<open>lastReadTs\<close>
  that is zero, \<open>null\<close> or absent (as with an inherited member), ends the loop with \<open>0\<close>.
\<close>

fun minReadTsLoop :: "(string \<rightharpoonup> watermark) \<Rightarrow> string list \<Rightarrow> int option \<Rightarrow> int option" where
  "minReadTsLoop watermarks [] acc = acc"
| "minReadTsLoop watermarks (agentId # rest) acc =
     (case readProp (watermarks agentId) agentId of
        Undefined \<Rightarrow> Some 0
      | Inherited \<Rightarrow> Some 0
      | Own wm \<Rightarrow>
          (case lastReadTs wm of
             None \<Rightarrow> Some 0
           | Some ts \<Rightarrow>
               if ts = 0 then Some 0
               else minReadTsLoop watermarks rest
                      (case acc of
                         None \<Rightarrow> Some ts
                       | Some m \<Rightarrow> if ts < m then Some ts else Some m)))"

definition cleanup :: "messageCache \<Rightarrow> io \<Rightarrow> cacheStore \<Rightarrow> string \<Rightarrow> string list \<Rightarrow> cacheStore" where
  "cleanup mc e st roomId memberAgents =
     (if roomId = [] \<or> memberAgents = [] then st
      else
        let allMessages = readAllMessages st roomId
        in if int (length allMessages) < compactThreshold mc then st
           else
             let watermarks = getWatermarks st roomId;
                 now = clock e
             in case minReadTsLoop watermarks memberAgents None of
                  None \<Rightarrow> st
                | Some minReadTs \<Rightarrow>
                    if minReadTs = 0 then st
                    else
                      let cutoff = now - cleanupTtlMs mc;
                          keepThreshold = max minReadTs cutoff;
                          kept = filter (\<lambda>m. m_ts m > keepThreshold) allMessages
                      in if length kept = length allMessages then st
                         else
                           let dir = sanitizeRoomId roomId
                           in st\<lparr>rooms := snd (withFileLock (lockOpens e)
                                  (\<lambda>fs. if writeOk e
                                        then Some (fs(dir := (fs dir)\<lparr>messagesFile := kept\<rparr>))
                                        else None)
                                  (rooms st))\<rparr>)"


section \<open>Task board (task-board.js, class TaskBoard)\<close>

definition sanitizeTaskId :: "string \<Rightarrow> string" where
  "sanitizeTaskId taskId =
     (let s = map (\<lambda>c. if c \<in> set (''abcdefghijklmnopqrstuvwxyz''
                                     @ ''ABCDEFGHIJKLMNOPQRSTUVWXYZ'' @ ''0123456789._-'')
                         then c else CHR ''_'') (asString taskId)
      in if s = [] then ''task'' else s)"

record slotEntry =
  se_status :: string
  se_note :: string
  se_at :: int

record slot =
  s_status :: string
  s_rounds :: int
  s_lastNote :: string
  s_lastAt :: int
  s_history :: "slotEntry list"

record historyEntry =
  h_actor :: string
  h_status :: string
  h_note :: string
  h_at :: int

text \<open>
  A task in the slots format. \<open>t_slots\<close> is the object \<open>slots\<close>, an association list
  in insertion order (what \<open>Object.values\<close> enumerates); a missing \<open>globalHistory\<close> is
  \<open>[]\<close>.
\<close>

record task =
  t_taskId :: string
  t_summary :: string
  t_status :: string
  t_createdBy :: string
  t_createdAt :: int
  t_updatedAt :: int
  t_closedAt :: int
  t_slots :: "(string \<times> slot) list"
  t_globalHistory :: "historyEntry list"

text \<open>
  A task file without \<open>slots\<close>, with the fields \<open>migrateLegacyTask\<close> reads: \<open>l_rounds\<close> is
  \<open>task.rounds?.length\<close> (\<open>0\<close> when absent), \<open>l_history\<close> is \<open>task.history || []\<close>.
\<close>

record legacyTask =
  l_taskId :: string
  l_summary :: string
  l_status :: string
  l_createdBy :: string
  l_createdAt :: int
  l_updatedAt :: int
  l_closedAt :: int
  l_assignee :: string
  l_owner :: string
  l_rounds :: nat
  l_lastNote :: string
  l_history :: "historyEntry list"

datatype taskFile = V3 task | Legacy legacyTask

text \<open>
  The files under \<open>rooms/<room>/tasks\<close>: \<open>active/\<close> as an association list from
  \<open>sanitizeTaskId taskId\<close> (the file name without \<open>.json\<close>) to the parsed file, in
  \<open>readdirSync\<close> order; \<open>history/\<close> keyed by close time and sanitized task id (the two
  parts of the file name); \<open>board.json\<close> as the map \<open>tasks\<close> from task id to status and
  summary with \<open>updatedAt\<close>, a missing file being the fallback with no tasks. Files that
  do not parse are read as absent and are not represented.
\<close>

record board =
  b_tasks :: "string \<rightharpoonup> (string \<times> string)"
  b_updatedAt :: int

record taskFiles =
  activeDir :: "(string \<times> taskFile) list"
  historyDir :: "((int \<times> string) \<times> task) list"
  boardFile :: board

type_synonym taskStore = "string \<Rightarrow> taskFiles"

record taskBoard =
  maxActiveTasks :: int
  roundTracking :: bool

definition newTaskBoard :: "int option \<Rightarrow> bool \<Rightarrow> taskBoard" where
  "newTaskBoard optMaxActiveTasks optRoundTracking =
     \<lparr>maxActiveTasks = orDefault optMaxActiveTasks 10, roundTracking = optRoundTracking\<rparr>"



text \<open>\<open>a || b\<close> on strings: \<open>a\<close> unless it is empty.\<close>

definition orElse :: "string \<Rightarrow> string \<Rightarrow> string" where
  "orElse a b = (if a \<noteq> [] then a else b)"

text \<open>\<open>a || b\<close> on numbers: \<open>a\<close> unless it is zero.\<close>

definition orElseNum :: "int \<Rightarrow> int \<Rightarrow> int" where
  "orElseNum a b = (if a \<noteq> 0 then a else b)"

definition migrateLegacyTask :: "int \<Rightarrow> taskFile \<Rightarrow> task" where
  "migrateLegacyTask now file =
     (case file of
        V3 t \<Rightarrow> t
      | Legacy l \<Rightarrow>
          let assignee = asString (orElse (l_assignee l) (l_owner l));
              slots =
                (if assignee \<noteq> []
                 then setPropList [] assignee
                        \<lparr>s_status = orElse (asString (l_status l)) ''ack'',
                         s_rounds = orElseNum (int (l_rounds l)) 1,
                         s_lastNote = asString (l_lastNote l),
                         s_lastAt = orElseNum (l_updatedAt l) (orElseNum (l_createdAt l) now),
                         s_history = map (\<lambda>h. \<lparr>se_status = asString (h_status h),
                                                 se_note = asString (h_note h),
                                                 se_at = orElseNum (h_at h) (l_updatedAt l)\<rparr>)
                                       (l_history l)\<rparr>
                 else [])
          in \<lparr>t_taskId = l_taskId l, t_summary = l_summary l, t_status = l_status l,
              t_createdBy = l_createdBy l, t_createdAt = l_createdAt l,
              t_updatedAt = l_updatedAt l, t_closedAt = l_closedAt l,
              t_slots = slots,
              t_globalHistory =
                map (\<lambda>h. \<lparr>h_actor = asString (orElse (h_actor h) (orElse assignee ''unknown'')),
                          h_status = asString (h_status h),
                          h_note = asString (h_note h),
                          h_at = orElseNum (h_at h) (l_updatedAt l)\<rparr>)
                    (l_history l)\<rparr>)"

definition fileTaskId :: "taskFile \<Rightarrow> string" where
  "fileTaskId file = (case file of V3 t \<Rightarrow> t_taskId t | Legacy l \<Rightarrow> l_taskId l)"

definition getBoard :: "taskStore \<Rightarrow> string \<Rightarrow> board" where
  "getBoard fs roomId = boardFile (fs (sanitizeRoomId roomId))"

text \<open>\<open>_saveBoard\<close>; the clock is read once per operation.\<close>

definition saveBoard :: "io \<Rightarrow> string \<Rightarrow> board \<Rightarrow> taskStore \<Rightarrow> taskStore" where
  "saveBoard e roomId b fs =
     (let dir = sanitizeRoomId roomId
      in snd (writeJsonAtomic (boardOk e)
               (\<lambda>fs. fs(dir := (fs dir)\<lparr>boardFile := b\<lparr>b_updatedAt := clock e\<rparr>\<rparr>)) fs))"

definition getTask :: "int \<Rightarrow> taskStore \<Rightarrow> string \<Rightarrow> string \<Rightarrow> task option" where
  "getTask now fs roomId taskId =
     (case map_of (activeDir (fs (sanitizeRoomId roomId))) (sanitizeTaskId taskId) of
        None \<Rightarrow> None
      | Some raw \<Rightarrow> Some (migrateLegacyTask now raw))"

definition listActiveTasks :: "int \<Rightarrow> taskStore \<Rightarrow> string \<Rightarrow> task list" where
  "listActiveTasks now fs roomId =
     sort_key t_createdAt
       (map (migrateLegacyTask now)
         (filter (\<lambda>raw. fileTaskId raw \<noteq> [])
           (map snd (activeDir (fs (sanitizeRoomId roomId))))))"

text \<open>The result objects of \<open>createTask\<close> and \<open>updateTask\<close>, with their \<open>ok\<close> and \<open>reason\<close>.\<close>

datatype taskResult =
    Invalid
  | LockFailed
  | MaxActiveReached nat
  | AlreadyExists task
  | NotFound string
  | Created task
  | Updated bool task

fun ok :: "taskResult \<Rightarrow> bool" where
  "ok (Created t) = True"
| "ok (Updated closed t) = True"
| "ok r = False"

fun reason :: "taskResult \<Rightarrow> string" where
  "reason Invalid = ''invalid''"
| "reason LockFailed = ''lock_failed''"
| "reason (MaxActiveReached n) = ''max_active_reached''"
| "reason (AlreadyExists t) = ''already_exists''"
| "reason (NotFound taskId) = ''not_found''"
| "reason r = []"

text \<open>The field \<open>task\<close> of a result object.\<close>

fun resultTask :: "taskResult \<Rightarrow> task option" where
  "resultTask (AlreadyExists t) = Some t"
| "resultTask (Created t) = Some t"
| "resultTask (Updated closed t) = Some t"
| "resultTask r = None"

record createParams =
  cp_taskId :: string
  cp_summary :: string
  cp_createdBy :: string
  cp_note :: string
  cp_status :: string

definition putActive :: "string \<Rightarrow> string \<Rightarrow> task \<Rightarrow> taskStore \<Rightarrow> taskStore" where
  "putActive roomId taskId t fs =
     (let dir = sanitizeRoomId roomId
      in fs(dir := (fs dir)\<lparr>activeDir :=
            AList.update (sanitizeTaskId taskId) (V3 t) (activeDir (fs dir))\<rparr>))"

text \<open>The function \<open>createTask\<close> runs under the lock, on the files and \<open>result\<close>.\<close>

definition createTaskLocked ::
  "taskBoard \<Rightarrow> io \<Rightarrow> string \<Rightarrow> createParams \<Rightarrow> taskStore \<times> taskResult option
     \<Rightarrow> taskStore \<times> taskResult option" where
  "createTaskLocked tb e roomId params s =
     (let fs = fst s;
          taskId = asString (cp_taskId params);
          activeTasks = listActiveTasks (clock e) fs roomId
      in if int (length activeTasks) \<ge> maxActiveTasks tb
         then (fs, Some (MaxActiveReached (length activeTasks)))
         else
           case getTask (clock e) fs roomId taskId of
             Some existing \<Rightarrow> (fs, Some (AlreadyExists existing))
           | None \<Rightarrow>
               let now = clock e;
                   actor = orElse (asString (cp_createdBy params)) ''unknown'';
                   initialStatus = orElse (asString (cp_status params)) ''create'';
                   t = \<lparr>t_taskId = taskId, t_summary = asString (cp_summary params),
                        t_status = initialStatus, t_createdBy = actor, t_createdAt = now,
                        t_updatedAt = now, t_closedAt = 0, t_slots = [],
                        t_globalHistory =
                          [\<lparr>h_actor = actor, h_status = initialStatus,
                            h_note = asString (cp_note params), h_at = now\<rparr>]\<rparr>;
                   fs1 = snd (writeJsonAtomic (writeOk e) (putActive roomId taskId t) fs);
                   b = getBoard fs1 roomId;
                   b1 = b\<lparr>b_tasks := setProp (b_tasks b) taskId (t_status t, t_summary t)\<rparr>;
                   fs2 = saveBoard e roomId b1 fs1
               in (fs2, Some (Created t)))"

definition createTask ::
  "taskBoard \<Rightarrow> io \<Rightarrow> taskStore \<Rightarrow> string \<Rightarrow> createParams \<Rightarrow> taskResult \<times> taskStore" where
  "createTask tb e fs roomId params =
     (let taskId = asString (cp_taskId params)
      in if roomId = [] \<or> taskId = [] then (Invalid, fs)
         else
           let (ran, s) = withFileLock (lockOpens e)
                            (\<lambda>s. Some (createTaskLocked tb e roomId params s)) (fs, None)
           in (case snd s of None \<Rightarrow> LockFailed | Some r \<Rightarrow> r, fst s))"


text \<open>\<open>xs.slice(-n)\<close> for positive \<open>n\<close>: the last \<open>n\<close> elements.\<close>

definition sliceLast :: "nat \<Rightarrow> 'a list \<Rightarrow> 'a list" where
  "sliceLast n xs = drop (length xs - n) xs"

text \<open>
  The lines of \<open>updateTask\<close> that write the actor's slot. With an own slot they update
  it; with no own slot and an ordinary actor name they make one; when \<open>slots[actor]\<close>
  is an inherited member (\<open>constructor\<close>, \<open>toString\<close>, \<open>__proto__\<close>, ...) the test
  \<open>!slots[actor]\<close> fails and every assignment lands on that member: \<open>slots\<close> keeps
  its own properties.
\<close>

definition withHistory :: "slot \<Rightarrow> slotEntry \<Rightarrow> slot" where
  "withHistory sl entry = sl\<lparr>s_history := sliceLast 19 (s_history sl) @ [entry]\<rparr>"

definition updateSlots ::
  "(string \<times> slot) list \<Rightarrow> string \<Rightarrow> string \<Rightarrow> string \<Rightarrow> int \<Rightarrow> (string \<times> slot) list" where
  "updateSlots slots actor status nt now =
     (let entry = \<lparr>se_status = status, se_note = nt, se_at = now\<rparr>
      in case readProp (map_of slots actor) actor of
           Undefined \<Rightarrow>
             AList.update actor
               (withHistory \<lparr>s_status = status, s_rounds = 1, s_lastNote = nt,
                              s_lastAt = now, s_history = []\<rparr> entry) slots
         | Own sl \<Rightarrow>
             AList.update actor
               (withHistory (sl\<lparr>s_rounds := s_rounds sl + 1, s_status := status,
                                s_lastNote := nt, s_lastAt := now\<rparr>) entry) slots
         | Inherited \<Rightarrow> slots)"





section \<open>Session routes (state.js, createTeamChatRuntime)\<close>

text \<open>
  The room fields the resolver reads: \<open>perRoomAccounts\<close> and \<open>agentToAccount\<close> are the own
  properties of the two plain objects \<open>room.resolveAccountForAgent\<close> looks up
  (config.js); a lookup answered by an inherited member yields that member, not a
  string. The routing collaborator \<open>api.runtime.channel.routing.resolveAgentRoute\<close> is a
  parameter: it maps the query to \<open>route?.sessionKey\<close>, \<open>None\<close> when there is no route
  or no key. Logging is left out.
\<close>

datatype accountRef = AccountId string | PrototypeMember string

record room =
  room_id :: string
  room_channel :: string
  perRoomAccounts :: "string \<rightharpoonup> string"
  agentToAccount :: "string \<rightharpoonup> string"

record routeQuery =
  q_channel :: string
  q_accountId :: "accountRef option"
  q_peerKind :: string
  q_peerId :: string

record sessionRoute =
  sr_accountId :: accountRef
  sr_sessionKey :: string

text \<open>\<open>table[agentId] || rest\<close> on an account table.\<close>

definition accountOr :: "(string \<rightharpoonup> string) \<Rightarrow> string \<Rightarrow> accountRef \<Rightarrow> accountRef" where
  "accountOr table agentId rest =
     (case readProp (table agentId) agentId of
        Own a \<Rightarrow> if a \<noteq> [] then AccountId a else rest
      | Inherited \<Rightarrow> PrototypeMember agentId
      | Undefined \<Rightarrow> rest)"

definition resolveAccountForAgent :: "room \<Rightarrow> string \<Rightarrow> accountRef" where
  "resolveAccountForAgent rm agentId =
     accountOr (perRoomAccounts rm) agentId
       (accountOr (agentToAccount rm) agentId (AccountId []))"

definition isSafeTeamroomSessionKey :: "string \<Rightarrow> room \<Rightarrow> string \<Rightarrow> bool" where
  "isSafeTeamroomSessionKey sessionKey rm targetAgent =
     (let key = toLowerCase (asString sessionKey)
      in if key = [] then False
         else
           let roomId = toLowerCase (asString (room_id rm))
           in if roomId = [] then False
              else if \<not> includesStr key '':group:'' then False
              else if \<not> includesStr key roomId then False
              else if startsWith key ''agent:''
                      \<and> \<not> startsWith key (''agent:'' @ toLowerCase (asString targetAgent) @ '':'')
                   then False
              else True)"

text \<open>
  The candidate session key of \<open>resolveAgentSessionKey\<close>: the route asked of the
  collaborator for the room's group peer, and \<open>asString(route?.sessionKey)\<close>.
\<close>

definition candidateSessionKey ::
  "(routeQuery \<Rightarrow> string option) \<Rightarrow> room \<Rightarrow> accountRef \<Rightarrow> string" where
  "candidateSessionKey resolveAgentRoute rm accountId =
     (let route = resolveAgentRoute
                    \<lparr>q_channel = room_channel rm,
                     q_accountId = (if accountId \<noteq> AccountId [] then Some accountId
                                    else None),
                     q_peerKind = ''group'', q_peerId = room_id rm\<rparr>
      in asString (case route of None \<Rightarrow> [] | Some k \<Rightarrow> k))"

definition resolveAgentSessionKey ::
  "(routeQuery \<Rightarrow> string option) \<Rightarrow> room \<Rightarrow> string \<Rightarrow> sessionRoute" where
  "resolveAgentSessionKey resolveAgentRoute rm agentId =
     (let accountId = resolveAccountForAgent rm agentId;
          sessionKey = candidateSessionKey resolveAgentRoute rm accountId
      in if \<not> isSafeTeamroomSessionKey sessionKey rm agentId
         then \<lparr>sr_accountId = accountId, sr_sessionKey = []\<rparr>
         else \<lparr>sr_accountId = accountId, sr_sessionKey = sessionKey\<rparr>)"

text \<open>
  The conversation a session key names, for the specification's "the key must
  reference the target room's conversation identifier": session keys have the form
  \<open>agent:<agent>:<channel>:group:<roomId>\<close> (README), and the conversation identifier
  is the field that follows the field \<open>group\<close>. The key is read trimmed and
  lower-cased, as \<open>isSafeTeamroomSessionKey\<close> reads it.
\<close>

fun splitOn :: "char \<Rightarrow> string \<Rightarrow> string list" where
  "splitOn c [] = [[]]"
| "splitOn c (x # xs) =
     (if x = c then [] # splitOn c xs
      else case splitOn c xs of
             [] \<Rightarrow> [[x]]
           | f # fs \<Rightarrow> (x # f) # fs)"

fun fieldAfter :: "string \<Rightarrow> string list \<Rightarrow> string option" where
  "fieldAfter name (f # g # fs) = (if f = name then Some g else fieldAfter name (g # fs))"
| "fieldAfter name fs = None"

definition keyConversationId :: "string \<Rightarrow> string option" where
  "keyConversationId key = fieldAfter ''group'' (splitOn CHR '':'' (toLowerCase (asString key)))"

section \<open>Concrete runs\<close>

text \<open>Inputs on which the operations are evaluated below.\<close>

definition ex_cfg :: roomConfig where
  "ex_cfg = \<lparr>cycleTtlSeconds = 30, maxTurnsPerCycle = 2, maxDispatchPerCycle = None\<rparr>"

definition ex_turn1 :: cycles where
  "ex_turn1 = snd (tryConsumeTurn Map.empty ''room'' ex_cfg 1000)"

definition ex_turn2 :: cycles where
  "ex_turn2 = snd (tryConsumeTurn ex_turn1 ''room'' ex_cfg 2000)"

definition ex_turn3 :: cycles where
  "ex_turn3 = snd (tryConsumeTurn ex_turn2 ''room'' ex_cfg 3000)"

definition ex_inbound0 :: cycles where
  "ex_inbound0 = snd (registerInboundExternal Map.empty ''room'' ex_cfg 1000)"

definition ex_inbound1 :: cycles where
  "ex_inbound1 = snd (registerInboundExternal ex_inbound0 ''room'' ex_cfg 30000)"

definition ex_inbound2 :: cycles where
  "ex_inbound2 = snd (tryConsumeTurn ex_inbound1 ''room'' ex_cfg 30500)"

definition ex_io :: io where
  "ex_io = \<lparr>clock = 1740000000000, rand = ''k3x9'', lockOpens = (\<lambda>i. True), writeOk = True,
     boardOk = True, rmOk = True\<rparr>"

definition ex_io_nolock :: io where
  "ex_io_nolock = \<lparr>clock = 1740000000000, rand = ''k3x9'', lockOpens = (\<lambda>i. False),
     writeOk = True, boardOk = True, rmOk = True\<rparr>"

definition ex_msgA :: message where
  "ex_msgA = \<lparr>m_id = ''m1'', m_ts = 1000, m_sender = ''Finley'', m_senderId = ''ou_user1'',
     m_sourceAgent = [], m_content = ''first'', m_mentions = [], m_type = ''message''\<rparr>"

definition ex_msgB :: message where
  "ex_msgB = \<lparr>m_id = ''m2'', m_ts = 2000, m_sender = ''builder'', m_senderId = ''ou_builder'',
     m_sourceAgent = ''builder'', m_content = ''second'', m_mentions = [],
     m_type = ''message''\<rparr>"

definition ex_msgC :: message where
  "ex_msgC = \<lparr>m_id = ''m3'', m_ts = 3000, m_sender = ''Finley'', m_senderId = ''ou_user1'',
     m_sourceAgent = [], m_content = ''third'', m_mentions = [], m_type = ''message''\<rparr>"

definition ex_cache :: cacheStore where
  "ex_cache =
     \<lparr>rooms = (\<lambda>d. \<lparr>messagesFile = [], watermarksFile = Map.empty\<rparr>)
        (''room'' := \<lparr>messagesFile = [ex_msgA, ex_msgB, ex_msgC],
                      watermarksFile = [''main'' \<mapsto> \<lparr>lastReadId = ''m1'', lastReadTs = Some 1000\<rparr>]\<rparr>),
      seqCounter = 0\<rparr>"

definition ex_marked :: draft where
  "ex_marked = \<lparr>p_id = [], p_ts = None, p_sender = ''main'', p_senderId = [],
     p_sourceAgent = ''main'', p_content = ''note [UNTRUSTED DATA: x]'', p_mentions = [],
     p_type = []\<rparr>"

definition ex_draft :: draft where
  "ex_draft = \<lparr>p_id = [], p_ts = None, p_sender = ''Finley'', p_senderId = ''ou_user1'',
     p_sourceAgent = [], p_content = ''hello team'', p_mentions = [''builder''],
     p_type = []\<rparr>"

text \<open>The record \<open>appendMessage\<close> returns for \<open>ex_draft\<close> at the clock of \<open>ex_io\<close>.\<close>

definition ex_record :: message where
  "ex_record = \<lparr>m_id = ''m_1740000000000_00001_k3x9'', m_ts = 1740000000000,
     m_sender = ''Finley'', m_senderId = ''ou_user1'', m_sourceAgent = [],
     m_content = ''hello team'', m_mentions = [''builder''], m_type = ''message''\<rparr>"

text \<open>
  A room of the default cache (threshold 200, retention one hour) holding 200 messages
  written long before the clock of \<open>ex_old_io\<close>; the only member has read up to
  time 1050.
\<close>

definition ex_old_msg :: "nat \<Rightarrow> message" where
  "ex_old_msg i = \<lparr>m_id = ''m'' @ showNat i, m_ts = 1000 + int i, m_sender = ''Finley'',
     m_senderId = ''ou_user1'', m_sourceAgent = [], m_content = ''hello'',
     m_mentions = [], m_type = ''message''\<rparr>"

definition ex_old_cache :: cacheStore where
  "ex_old_cache =
     \<lparr>rooms = (\<lambda>d. \<lparr>messagesFile = [], watermarksFile = Map.empty\<rparr>)
        (''room'' := \<lparr>messagesFile = map ex_old_msg [0..<200],
                      watermarksFile = [''main'' \<mapsto> \<lparr>lastReadId = [], lastReadTs = Some 1050\<rparr>]\<rparr>),
      seqCounter = 0\<rparr>"

definition ex_old_io :: io where
  "ex_old_io = \<lparr>clock = 10000000, rand = ''ab12'', lockOpens = (\<lambda>i. True), writeOk = True,
     boardOk = True, rmOk = True\<rparr>"

definition ex_tasks0 :: taskStore where
  "ex_tasks0 = (\<lambda>d. \<lparr>activeDir = [], historyDir = [],
                      boardFile = \<lparr>b_tasks = Map.empty, b_updatedAt = 0\<rparr>\<rparr>)"

definition ex_create :: createParams where
  "ex_create = \<lparr>cp_taskId = ''T-1'', cp_summary = ''demo'', cp_createdBy = ''main'',
     cp_note = [], cp_status = []\<rparr>"

definition ex_create_dup :: createParams where
  "ex_create_dup = \<lparr>cp_taskId = ''T-1'', cp_summary = ''dup'', cp_createdBy = ''main'',
     cp_note = [], cp_status = []\<rparr>"

definition ex_task1 :: task where
  "ex_task1 = \<lparr>t_taskId = ''T-1'', t_summary = ''demo'', t_status = ''create'',
     t_createdBy = ''main'', t_createdAt = 1740000000000, t_updatedAt = 1740000000000,
     t_closedAt = 0, t_slots = [],
     t_globalHistory = [\<lparr>h_actor = ''main'', h_status = ''create'', h_note = [],
                         h_at = 1740000000000\<rparr>]\<rparr>"

definition ex_tasks1 :: taskStore where
  "ex_tasks1 = snd (createTask (newTaskBoard None True) ex_io ex_tasks0 ''room'' ex_create)"

definition ex_tasks1_full :: taskStore where
  "ex_tasks1_full = snd (createTask (newTaskBoard (Some 1) True) ex_io ex_tasks0 ''room'' ex_create)"









definition ex_room :: room where
  "ex_room = \<lparr>room_id = ''oc_room1'', room_channel = ''feishu'',
     perRoomAccounts = [''main'' \<mapsto> ''main-bot'', ''builder'' \<mapsto> ''builder-bot''],
     agentToAccount = Map.empty\<rparr>"

definition ex_route :: "routeQuery \<Rightarrow> string option" where
  "ex_route q = Some ''agent:main:feishu:group:oc_room1''"

text \<open>A collaborator that answers with the main agent's session of another room.\<close>

definition ex_route_other :: "routeQuery \<Rightarrow> string option" where
  "ex_route_other q = Some ''agent:main:feishu:group:oc_room12''"

section \<open>Properties\<close>
section \<open>Cycle limiter: turn budget and debounced reset\<close>

lemma getCycle_live:
  assumes "cs r = Some c" "\<not> t - createdAt c > cycleTtlSeconds cfg * 1000"
  shows "getCycle cs r cfg t =
           (c\<lparr>maxTurns := maxTurnsPerCycle cfg,
               maxDispatch := (case maxDispatchPerCycle cfg of None \<Rightarrow> maxTurnsPerCycle cfg | Some d \<Rightarrow> d),
               ttlMs := cycleTtlSeconds cfg * 1000\<rparr>,
            cs(r \<mapsto> c\<lparr>maxTurns := maxTurnsPerCycle cfg,
               maxDispatch := (case maxDispatchPerCycle cfg of None \<Rightarrow> maxTurnsPerCycle cfg | Some d \<Rightarrow> d),
               ttlMs := cycleTtlSeconds cfg * 1000\<rparr>))"
  using assms by (simp add: getCycle_def Let_def)

lemma getCycle_stored: "getCycle cs r cfg t = (c, cs') \<Longrightarrow> cs' r = Some c"
  by (auto simp: getCycle_def Let_def split: option.splits if_splits)

lemma tryConsumeTurn_live:
  assumes "cs r = Some c" "t - createdAt c \<le> cycleTtlSeconds cfg * 1000"
  shows "\<exists>c'. snd (tryConsumeTurn cs r cfg t) r = Some c' \<and> createdAt c' = createdAt c
          \<and> lastInboundAt c' = lastInboundAt c \<and> turnsUsed c \<le> turnsUsed c'
          \<and> dispatchCount c' = dispatchCount c"
  using assms by (simp add: tryConsumeTurn_def getCycle_live Let_def)

lemma tryConsumeDispatch_live:
  assumes "cs r = Some c" "t - createdAt c \<le> cycleTtlSeconds cfg * 1000"
  shows "\<exists>c'. snd (tryConsumeDispatch cs r cfg t) r = Some c' \<and> createdAt c' = createdAt c
          \<and> lastInboundAt c' = lastInboundAt c \<and> turnsUsed c' = turnsUsed c
          \<and> dispatchCount c \<le> dispatchCount c'"
  using assms by (simp add: tryConsumeDispatch_def getCycle_live Let_def)

lemma consumeAll_live:
  assumes "cs r = Some c" "\<forall>x\<in>set xs. consumeTime x - createdAt c \<le> cycleTtlSeconds cfg * 1000"
  shows "\<exists>c'. consumeAll cs r cfg xs r = Some c' \<and> createdAt c' = createdAt c
          \<and> lastInboundAt c' = lastInboundAt c \<and> turnsUsed c \<le> turnsUsed c'
          \<and> dispatchCount c \<le> dispatchCount c'"
  using assms
proof (induction xs arbitrary: cs c)
  case Nil
  then show ?case by simp
next
  case (Cons x xs)
  show ?case
  proof (cases x)
    case (ConsumeTurn t)
    with Cons.prems have "t - createdAt c \<le> cycleTtlSeconds cfg * 1000" by simp
    from tryConsumeTurn_live[of cs r c t cfg] Cons.prems(1) this
    obtain c1 where c1: "snd (tryConsumeTurn cs r cfg t) r = Some c1" "createdAt c1 = createdAt c"
      "lastInboundAt c1 = lastInboundAt c" "turnsUsed c \<le> turnsUsed c1" "dispatchCount c1 = dispatchCount c"
      by blast
    have "\<forall>x\<in>set xs. consumeTime x - createdAt c1 \<le> cycleTtlSeconds cfg * 1000"
      using Cons.prems(2) c1(2) by simp
    from Cons.IH[of "snd (tryConsumeTurn cs r cfg t)" c1] c1 this ConsumeTurn show ?thesis by fastforce
  next
    case (ConsumeDispatch t)
    with Cons.prems have "t - createdAt c \<le> cycleTtlSeconds cfg * 1000" by simp
    from tryConsumeDispatch_live[of cs r c t cfg] Cons.prems(1) this
    obtain c1 where c1: "snd (tryConsumeDispatch cs r cfg t) r = Some c1" "createdAt c1 = createdAt c"
      "lastInboundAt c1 = lastInboundAt c" "turnsUsed c1 = turnsUsed c" "dispatchCount c \<le> dispatchCount c1"
      by blast
    have "\<forall>x\<in>set xs. consumeTime x - createdAt c1 \<le> cycleTtlSeconds cfg * 1000"
      using Cons.prems(2) c1(2) by simp
    from Cons.IH[of "snd (tryConsumeDispatch cs r cfg t)" c1] c1 this ConsumeDispatch show ?thesis by fastforce
  qed
qed

lemma registerInboundExternal_stored:
  "registerInboundExternal cs r cfg t = (c, cs') \<Longrightarrow>
     cs' r = Some c \<and> lastInboundAt c = t"
  by (auto simp: registerInboundExternal_def Let_def split: prod.splits if_splits)

text \<open>
  C5. In a room with \<open>maxTurnsPerCycle = 2\<close> and a fresh cycle (the cycle the first
  call sees has no turn consumed, and the second and third call fall within its life
  time), the first two \<open>tryConsumeTurn\<close> calls return \<open>ok = true\<close> and the third returns
  \<open>ok = false\<close> with \<open>turnsUsed = 2\<close> and \<open>maxTurns = 2\<close>; a later
  \<open>registerInboundExternal\<close> whose gap to the previous registration exceeds the debounce
  interval leaves \<open>turnsUsed = 0\<close>, under any configuration.
\<close>

theorem C5_turn_budget_of_two:
  assumes m: "maxTurnsPerCycle cfg = 2"
    and fresh: "turnsUsed (fst (getCycle cs roomId cfg t1)) = 0"
    and in2: "t2 - createdAt (fst (getCycle cs roomId cfg t1)) \<le> cycleTtlSeconds cfg * 1000"
    and in3: "t3 - createdAt (fst (getCycle cs roomId cfg t1)) \<le> cycleTtlSeconds cfg * 1000"
    and c1: "tryConsumeTurn cs roomId cfg t1 = (res1, cs1)"
    and c2: "tryConsumeTurn cs1 roomId cfg t2 = (res2, cs2)"
    and c3: "tryConsumeTurn cs2 roomId cfg t3 = (res3, cs3)"
    and prev: "cs3 roomId = Some c"
    and gap: "t4 - lastInboundAt c > DEBOUNCE_MS"
  shows "r_ok res1 \<and> r_ok res2 \<and> \<not> r_ok res3 \<and> r_turnsUsed res3 = 2 \<and> r_maxTurns res3 = 2
         \<and> turnsUsed c = 2
         \<and> turnsUsed (fst (registerInboundExternal cs3 roomId cfg' t4)) = 0
         \<and> snd (registerInboundExternal cs3 roomId cfg' t4) roomId
             = Some (fst (registerInboundExternal cs3 roomId cfg' t4))"
proof -
  obtain g gs where g: "getCycle cs roomId cfg t1 = (g, gs)" by (cases "getCycle cs roomId cfg t1")
  have gs: "gs roomId = Some g" using getCycle_stored[OF g] .
  have g0: "turnsUsed g = 0" using fresh g by simp
  have gm: "maxTurns g = 2" using g m by (auto simp: getCycle_def Let_def split: option.splits if_splits)
  define k1 where "k1 = g\<lparr>turnsUsed := 1, lastActivityAt := t1\<rparr>"
  have r1: "res1 = \<lparr>r_ok = True, r_turnsUsed = 1, r_maxTurns = 2\<rparr>" and s1: "cs1 = gs(roomId \<mapsto> k1)"
    using c1 g g0 gm by (auto simp: tryConsumeTurn_def Let_def k1_def)
  have l1: "cs1 roomId = Some k1" using s1 by simp
  have nx2: "\<not> t2 - createdAt k1 > cycleTtlSeconds cfg * 1000" using in2 g by (simp add: k1_def)
  define k2 where "k2 = k1\<lparr>maxTurns := 2, maxDispatch := (case maxDispatchPerCycle cfg of None \<Rightarrow> maxTurnsPerCycle cfg | Some d \<Rightarrow> d),
               ttlMs := cycleTtlSeconds cfg * 1000, turnsUsed := 2, lastActivityAt := t2\<rparr>"
  have r2: "res2 = \<lparr>r_ok = True, r_turnsUsed = 2, r_maxTurns = 2\<rparr>" and l2: "cs2 roomId = Some k2"
    using c2 m by (auto simp: tryConsumeTurn_def getCycle_live[where cs=cs1 and r=roomId and c=k1 and t=t2 and cfg=cfg, OF l1 nx2] Let_def k1_def k2_def)
  have nx3: "\<not> t3 - createdAt k2 > cycleTtlSeconds cfg * 1000" using in3 g by (simp add: k1_def k2_def)
  have r3: "res3 = \<lparr>r_ok = False, r_turnsUsed = 2, r_maxTurns = 2\<rparr>"
    and l3: "cs3 roomId = Some (k2\<lparr>maxTurns := 2, maxDispatch := (case maxDispatchPerCycle cfg of None \<Rightarrow> maxTurnsPerCycle cfg | Some d \<Rightarrow> d),
               ttlMs := cycleTtlSeconds cfg * 1000\<rparr>)"
    using c3 m by (auto simp: tryConsumeTurn_def getCycle_live[where cs=cs2 and r=roomId and c=k2 and t=t3 and cfg=cfg, OF l2 nx3] Let_def k2_def)
  have tc: "turnsUsed c = 2" using prev l3 by (auto simp: k2_def)
  have reg: "turnsUsed (fst (registerInboundExternal cs3 roomId cfg' t4)) = 0
         \<and> snd (registerInboundExternal cs3 roomId cfg' t4) roomId
             = Some (fst (registerInboundExternal cs3 roomId cfg' t4))"
    using prev gap
    by (auto simp: registerInboundExternal_def getCycle_def Let_def DEBOUNCE_MS_def split: prod.splits)
  show ?thesis using r1 r2 r3 tc reg by simp
qed

lemma ex_turn3_val: "ex_turn3 ''room'' = Some \<lparr>turnsUsed = 2, dispatchCount = 0, maxTurns = 2, maxDispatch = 2,
      ttlMs = 30000, createdAt = 1000, lastInboundAt = 0, lastActivityAt = 2000\<rparr>"
  by (simp add: ex_turn3_def ex_turn2_def ex_turn1_def ex_cfg_def tryConsumeTurn_def getCycle_def Let_def)

text \<open>The run at times 1000, 2000, 3000 and a registration at 9000.\<close>

theorem C5_witness:
  "r_ok (fst (tryConsumeTurn Map.empty ''room'' ex_cfg 1000))
   \<and> r_ok (fst (tryConsumeTurn ex_turn1 ''room'' ex_cfg 2000))
   \<and> \<not> r_ok (fst (tryConsumeTurn ex_turn2 ''room'' ex_cfg 3000))
   \<and> r_turnsUsed (fst (tryConsumeTurn ex_turn2 ''room'' ex_cfg 3000)) = 2
   \<and> r_maxTurns (fst (tryConsumeTurn ex_turn2 ''room'' ex_cfg 3000)) = 2
   \<and> turnsUsed (fst (registerInboundExternal ex_turn3 ''room'' ex_cfg 9000)) = 0"
proof -
  have m: "maxTurnsPerCycle ex_cfg = 2" by (simp add: ex_cfg_def)
  have fresh: "turnsUsed (fst (getCycle Map.empty ''room'' ex_cfg 1000)) = 0"
    by (simp add: getCycle_def Let_def)
  have in2: "2000 - createdAt (fst (getCycle Map.empty ''room'' ex_cfg 1000)) \<le> cycleTtlSeconds ex_cfg * 1000"
    by (simp add: getCycle_def Let_def ex_cfg_def)
  have in3: "3000 - createdAt (fst (getCycle Map.empty ''room'' ex_cfg 1000)) \<le> cycleTtlSeconds ex_cfg * 1000"
    by (simp add: getCycle_def Let_def ex_cfg_def)
  have c1: "tryConsumeTurn Map.empty ''room'' ex_cfg 1000
              = (fst (tryConsumeTurn Map.empty ''room'' ex_cfg 1000), ex_turn1)"
    by (simp add: ex_turn1_def)
  have c2: "tryConsumeTurn ex_turn1 ''room'' ex_cfg 2000
              = (fst (tryConsumeTurn ex_turn1 ''room'' ex_cfg 2000), ex_turn2)"
    by (simp add: ex_turn2_def)
  have c3: "tryConsumeTurn ex_turn2 ''room'' ex_cfg 3000
              = (fst (tryConsumeTurn ex_turn2 ''room'' ex_cfg 3000), ex_turn3)"
    by (simp add: ex_turn3_def)
  have gap: "9000 - lastInboundAt \<lparr>turnsUsed = 2, dispatchCount = 0, maxTurns = 2, maxDispatch = 2,
      ttlMs = 30000, createdAt = 1000, lastInboundAt = 0, lastActivityAt = 2000\<rparr> > DEBOUNCE_MS"
    by (simp add: DEBOUNCE_MS_def)
  from C5_turn_budget_of_two[OF m fresh in2 in3 c1 c2 c3 ex_turn3_val gap, of ex_cfg]
  show ?thesis by simp
qed

text \<open>
  C4, amended. When a \<open>registerInboundExternal\<close> call at a time \<open>t1\<close> other than
  zero is followed, after any run of turn and dispatch consumptions, by a second call
  less than the debounce interval later, and the cycle has not outlived its life time
  at any of these calls, then the second call leaves \<open>turnsUsed\<close> and \<open>dispatchCount\<close>
  as they were just before it: what was consumed in between stays counted.
\<close>

theorem C4_debounced_registration_keeps_counters:
  assumes first: "registerInboundExternal cs roomId cfg t1 = (c1, cs1)"
    and between: "consumeAll cs1 roomId cfg between = cs2"
    and t1: "t1 \<noteq> 0"
    and gap: "t2 - t1 < DEBOUNCE_MS"
    and live: "t2 - createdAt c1 \<le> cycleTtlSeconds cfg * 1000"
    and live_between: "\<forall>x\<in>set between. consumeTime x - createdAt c1 \<le> cycleTtlSeconds cfg * 1000"
  shows "\<exists>c2. cs2 roomId = Some c2
           \<and> turnsUsed c1 \<le> turnsUsed c2 \<and> dispatchCount c1 \<le> dispatchCount c2
           \<and> turnsUsed (fst (registerInboundExternal cs2 roomId cfg t2)) = turnsUsed c2
           \<and> dispatchCount (fst (registerInboundExternal cs2 roomId cfg t2)) = dispatchCount c2
           \<and> snd (registerInboundExternal cs2 roomId cfg t2) roomId
               = Some (fst (registerInboundExternal cs2 roomId cfg t2))"
proof -
  from registerInboundExternal_stored[OF first]
  have s1: "cs1 roomId = Some c1" and l1: "lastInboundAt c1 = t1" by simp_all
  from consumeAll_live[of cs1 roomId c1 between cfg] s1 live_between between
  obtain c2 where c2: "cs2 roomId = Some c2" "createdAt c2 = createdAt c1"
    "lastInboundAt c2 = lastInboundAt c1" "turnsUsed c1 \<le> turnsUsed c2"
    "dispatchCount c1 \<le> dispatchCount c2" by blast
  have nx: "\<not> t2 - createdAt c2 > cycleTtlSeconds cfg * 1000" using live c2(2) by simp
  have "turnsUsed (fst (registerInboundExternal cs2 roomId cfg t2)) = turnsUsed c2"
    "dispatchCount (fst (registerInboundExternal cs2 roomId cfg t2)) = dispatchCount c2"
    "snd (registerInboundExternal cs2 roomId cfg t2) roomId
               = Some (fst (registerInboundExternal cs2 roomId cfg t2))"
    using t1 gap l1 c2(3)
    by (simp_all add: registerInboundExternal_def getCycle_live[where cs=cs2 and r=roomId and c=c2 and t=t2 and cfg=cfg, OF c2(1) nx] Let_def)
  with c2 show ?thesis by blast
qed

lemma ex_inbound1_val: "registerInboundExternal ex_inbound0 ''room'' ex_cfg 30000 =
   (\<lparr>turnsUsed = 0, dispatchCount = 0, maxTurns = 2, maxDispatch = 2,
      ttlMs = 30000, createdAt = 1000, lastInboundAt = 30000, lastActivityAt = 30000\<rparr>, ex_inbound1)"
  by (simp add: ex_inbound1_def ex_inbound0_def ex_cfg_def registerInboundExternal_def getCycle_def Let_def DEBOUNCE_MS_def)

text \<open>
  A cycle created at 1000 with a life time of 30 seconds: registrations at 30000 and
  31500 are 1500 ms apart, a turn is consumed at 30500 in between, and the second
  registration finds the cycle expired and starts a new one with no turn used.
\<close>

theorem C4_counterexample:
  "r_ok (fst (tryConsumeTurn ex_inbound1 ''room'' ex_cfg 30500))
   \<and> map_option turnsUsed (ex_inbound2 ''room'') = Some 1
   \<and> 31500 - 30000 < DEBOUNCE_MS
   \<and> turnsUsed (fst (registerInboundExternal ex_inbound2 ''room'' ex_cfg 31500)) = 0"
  by (simp add: ex_inbound2_def ex_inbound1_def ex_inbound0_def ex_cfg_def registerInboundExternal_def
      tryConsumeTurn_def getCycle_def Let_def DEBOUNCE_MS_def)

text \<open>The same run with the second registration at 30900, inside the life time.\<close>

theorem C4_witness:
  "map_option turnsUsed (ex_inbound2 ''room'') = Some 1
   \<and> turnsUsed (fst (registerInboundExternal ex_inbound2 ''room'' ex_cfg 30900)) = 1"
proof -
  have b: "consumeAll ex_inbound1 ''room'' ex_cfg [ConsumeTurn 30500] = ex_inbound2"
    by (simp add: ex_inbound2_def)
  have t1: "(30000::int) \<noteq> 0" by simp
  have gap: "30900 - 30000 < DEBOUNCE_MS" by (simp add: DEBOUNCE_MS_def)
  have live: "30900 - createdAt \<lparr>turnsUsed = 0, dispatchCount = 0, maxTurns = 2, maxDispatch = 2,
      ttlMs = 30000, createdAt = 1000, lastInboundAt = 30000, lastActivityAt = 30000\<rparr>
       \<le> cycleTtlSeconds ex_cfg * 1000" by (simp add: ex_cfg_def)
  have lb: "\<forall>x\<in>set [ConsumeTurn 30500]. consumeTime x - createdAt \<lparr>turnsUsed = 0, dispatchCount = 0, maxTurns = 2, maxDispatch = 2,
      ttlMs = 30000, createdAt = 1000, lastInboundAt = 30000, lastActivityAt = 30000\<rparr>
       \<le> cycleTtlSeconds ex_cfg * 1000" by (simp add: ex_cfg_def)
  have v: "map_option turnsUsed (ex_inbound2 ''room'') = Some 1"
    by (simp add: ex_inbound2_def ex_inbound1_def ex_inbound0_def ex_cfg_def registerInboundExternal_def
      tryConsumeTurn_def getCycle_def Let_def DEBOUNCE_MS_def)
  from C4_debounced_registration_keeps_counters[OF ex_inbound1_val b t1 gap live lb] v
  show ?thesis by auto
qed
section \<open>Message cache\<close>

subsection \<open>Evaluation helpers\<close>

lemma lock_true: "lockAcquired (\<lambda>i. True)"
  by (simp add: lockAcquired_def LOCK_RETRIES_def eval_nat_numeral)

lemma san_room: "sanitizeRoomId ''room'' = ''room''"
  by (simp add: sanitizeRoomId_def asString_def trim_def isSpace_def)

lemma lock_false: "\<not> lockAcquired (\<lambda>i. False)"
  by (simp add: lockAcquired_def LOCK_RETRIES_def eval_nat_numeral)

lemma asString_ids:
  "asString ''m1'' = ''m1''" "asString ''m2'' = ''m2''" "asString [] = []"
  by (simp_all add: asString_def trim_def isSpace_def)

subsection \<open>Trimming keeps and adds no marker\<close>

lemma dropWhile_keeps_infix:
  assumes "m \<noteq> []" "\<not> P (hd m)"
  shows "\<exists>ps'. dropWhile P (ps @ m @ ss) = ps' @ m @ ss"
proof (induction ps)
  case Nil
  from assms obtain x xs where "m = x # xs" by (cases m) auto
  with assms show ?case by auto
next
  case (Cons a ps)
  show ?case
  proof (cases "P a")
    case True
    with Cons show ?thesis by simp
  next
    case False
    then have "dropWhile P ((a # ps) @ m @ ss) = (a # ps) @ m @ ss" by simp
    then show ?thesis by blast
  qed
qed

lemma trim_keeps_marker:
  assumes sub: "sublist m s" and ne: "m \<noteq> []"
    and h: "\<not> isSpace (hd m)" and l: "\<not> isSpace (last m)"
  shows "sublist m (trim s)"
proof -
  from sub obtain ps ss where s: "s = ps @ m @ ss" by (auto simp: sublist_def)
  from dropWhile_keeps_infix[where P=isSpace and m=m and ps=ps and ss=ss, OF ne h] s
  obtain ps' where d1: "dropWhile isSpace s = ps' @ m @ ss" by auto
  have rne: "rev m \<noteq> []" using ne by simp
  have rh: "\<not> isSpace (hd (rev m))" using l ne by (simp add: hd_rev)
  from dropWhile_keeps_infix[where P=isSpace and m="rev m" and ps="rev ss" and ss="rev ps'", OF rne rh]
  obtain q where d2: "dropWhile isSpace (rev ss @ rev m @ rev ps') = q @ rev m @ rev ps'" by auto
  have "trim s = ps' @ m @ rev q"
    using d1 d2 by (simp add: trim_def)
  then show ?thesis by (auto simp: sublist_def)
qed

lemma trim_sublist: "sublist (trim s) s"
proof -
  have "suffix (dropWhile isSpace s) s" by (rule suffix_dropWhile)
  moreover have "prefix (rev (dropWhile isSpace (rev (dropWhile isSpace s)))) (dropWhile isSpace s)"
  proof -
    have "rev (dropWhile isSpace s) = takeWhile isSpace (rev (dropWhile isSpace s)) @ dropWhile isSpace (rev (dropWhile isSpace s))"
      by simp
    then have "dropWhile isSpace s = rev (dropWhile isSpace (rev (dropWhile isSpace s))) @ rev (takeWhile isSpace (rev (dropWhile isSpace s)))"
      by (metis rev_append rev_rev_ident)
    then show ?thesis by (metis prefixI)
  qed
  ultimately show ?thesis
    unfolding trim_def by (meson prefix_imp_sublist suffix_imp_sublist sublist_order.order_trans)
qed

subsection \<open>Rejected and accepted drafts\<close>

text \<open>
  C6. For every room id, store and environment, a draft whose content contains one of
  the reserved markers \<open>[UNTRUSTED DATA\<close> or \<open><relevant-memories>\<close> makes
  \<open>appendMessage\<close> return \<open>null\<close> and leaves the store, hence the room's log, unchanged.
\<close>

theorem C6_injection_marker_rejected:
  assumes "sublist ''[UNTRUSTED DATA'' (p_content params)
           \<or> sublist ''<relevant-memories>'' (p_content params)"
  shows "fst (appendMessage e st roomId params) = None
         \<and> snd (appendMessage e st roomId params) = st
         \<and> readAllMessages (snd (appendMessage e st roomId params)) roomId = readAllMessages st roomId"
proof -
  have "includesStr (asString (p_content params)) ''[UNTRUSTED DATA''
        \<or> includesStr (asString (p_content params)) ''<relevant-memories>''"
    using assms
    by (auto simp: includesStr_def asString_def isSpace_def intro!: trim_keeps_marker)
  then have "appendMessage e st roomId params = (None, st)"
    by (auto simp: appendMessage_def Let_def)
  then show ?thesis by simp
qed

text \<open>A marked draft offered to a room that holds three messages.\<close>

theorem C6_witness:
  "fst (appendMessage ex_io ex_cache ''room'' ex_marked) = None
   \<and> readAllMessages (snd (appendMessage ex_io ex_cache ''room'' ex_marked)) ''room''
       = [ex_msgA, ex_msgB, ex_msgC]"
proof -
  have "sublist ''[UNTRUSTED DATA'' (''note '' @ ''[UNTRUSTED DATA'' @ '': x]'')"
    by (rule sublist_appendI)
  then have h: "sublist ''[UNTRUSTED DATA'' (p_content ex_marked)
                \<or> sublist ''<relevant-memories>'' (p_content ex_marked)"
    by (simp add: ex_marked_def)
  have l: "readAllMessages ex_cache ''room'' = [ex_msgA, ex_msgB, ex_msgC]"
    by (simp add: readAllMessages_def ex_cache_def san_room)
  from C6_injection_marker_rejected[OF h, of ex_io ex_cache "''room''"] l
  show ?thesis by simp
qed

lemma generateMessageId_nonempty: "fst (generateMessageId e n ts) \<noteq> []"
  by (simp add: generateMessageId_def Let_def)

lemma generateMessageId_io:
  "generateMessageId (e\<lparr>lockOpens := opens', writeOk := ok'\<rparr>) n ts = generateMessageId e n ts"
  by (simp add: generateMessageId_def)

lemma buildRecord_io:
  "buildRecord (e\<lparr>lockOpens := opens', writeOk := ok'\<rparr>) n params = buildRecord e n params"
  by (simp add: buildRecord_def generateMessageId_io Let_def split: option.splits)

lemma buildRecord_fields:
  "m_id (fst (buildRecord e n params)) \<noteq> []
   \<and> m_sender (fst (buildRecord e n params)) \<noteq> []
   \<and> m_type (fst (buildRecord e n params)) \<noteq> []"
  using generateMessageId_nonempty[of e n]
  by (simp add: buildRecord_def Let_def split_beta)

lemma buildRecord_value:
  "m_ts (fst (buildRecord e n params))
     = (case p_ts params of None \<Rightarrow> clock e | Some k \<Rightarrow> if k = 0 then clock e else k)"
  "m_id (fst (buildRecord e n params))
     = (if asString (p_id params) \<noteq> [] then asString (p_id params)
        else ''m_''
             @ showInt (if m_ts (fst (buildRecord e n params)) = 0 then clock e
                        else m_ts (fst (buildRecord e n params)))
             @ ''_'' @ padStart 5 (CHR ''0'') (showNat ((n + 1) mod 100000))
             @ ''_'' @ rand e)"
  "m_sender (fst (buildRecord e n params))
     = (if asString (p_sender params) \<noteq> [] then asString (p_sender params) else ''unknown'')"
  "m_senderId (fst (buildRecord e n params)) = asString (p_senderId params)"
  "m_sourceAgent (fst (buildRecord e n params)) = asString (p_sourceAgent params)"
  "m_content (fst (buildRecord e n params)) = asString (p_content params)"
  "m_mentions (fst (buildRecord e n params)) = filter (\<lambda>x. x \<noteq> []) (p_mentions params)"
  "m_type (fst (buildRecord e n params))
     = (if asString (p_type params) \<noteq> [] then asString (p_type params) else ''message'')"
  "snd (buildRecord e n params)
     = (if asString (p_id params) \<noteq> [] then n else (n + 1) mod 100000)"
  by (simp_all add: buildRecord_def generateMessageId_def Let_def split_beta)

lemma appendMessage_accepted:
  assumes "roomId \<noteq> []"
    and "\<not> includesStr (asString (p_content params)) ''[UNTRUSTED DATA''"
    and "\<not> includesStr (asString (p_content params)) ''<relevant-memories>''"
  shows "fst (appendMessage e st roomId params) = Some (fst (buildRecord e (seqCounter st) params))"
    and "readAllMessages (snd (appendMessage e st roomId params)) roomId
           = (if lockAcquired (lockOpens e) \<and> writeOk e
              then readAllMessages st roomId @ [fst (buildRecord e (seqCounter st) params)]
              else readAllMessages st roomId)"
    and "seqCounter (snd (appendMessage e st roomId params))
           = snd (buildRecord e (seqCounter st) params)"
  using assms
  by (simp_all add: appendMessage_def Let_def split_beta withFileLock_def appendLine_def
      readAllMessages_def)

text \<open>
  C9. For every non-empty room id and every draft whose content contains no marker,
  \<open>appendMessage\<close> returns the message record of the draft, whatever the lock and the
  file append do. The record has all eight fields: \<open>ts\<close> is the draft's time stamp
  (a finite number), or the clock when that is zero or not a number; \<open>id\<close> is the draft's trimmed id, or
  else the generated \<open>m_<ts>_<counter, five digits>_<random suffix>\<close> with the
  counter advanced; \<open>sender\<close> and \<open>type\<close> are the trimmed draft values with the
  defaults \<open>unknown\<close> and \<open>message\<close>; \<open>senderId\<close>, \<open>sourceAgent\<close> and \<open>content\<close> are
  the trimmed draft values; \<open>mentions\<close> are the non-empty mentions of the draft. Id,
  sender and type are never empty. The record returned is the same for every outcome
  of the lock attempts and of the write, while the log gains the record only when the
  lock was acquired and the append succeeded: nothing in the value returned tells the
  two apart.
\<close>

theorem C9_append_result_hides_write_outcome:
  assumes room: "roomId \<noteq> []"
    and clean: "\<not> sublist ''[UNTRUSTED DATA'' (p_content params)"
               "\<not> sublist ''<relevant-memories>'' (p_content params)"
  shows "\<exists>record. fst (appendMessage e st roomId params) = Some record
           \<and> m_ts record
               = (case p_ts params of None \<Rightarrow> clock e | Some k \<Rightarrow> if k = 0 then clock e else k)
           \<and> m_id record
               = (if asString (p_id params) \<noteq> [] then asString (p_id params)
                  else ''m_'' @ showInt (if m_ts record = 0 then clock e else m_ts record)
                       @ ''_'' @ padStart 5 (CHR ''0'') (showNat ((seqCounter st + 1) mod 100000))
                       @ ''_'' @ rand e)
           \<and> m_sender record
               = (if asString (p_sender params) \<noteq> [] then asString (p_sender params)
                  else ''unknown'')
           \<and> m_senderId record = asString (p_senderId params)
           \<and> m_sourceAgent record = asString (p_sourceAgent params)
           \<and> m_content record = asString (p_content params)
           \<and> m_mentions record = filter (\<lambda>x. x \<noteq> []) (p_mentions params)
           \<and> m_type record
               = (if asString (p_type params) \<noteq> [] then asString (p_type params)
                  else ''message'')
           \<and> m_id record \<noteq> [] \<and> m_sender record \<noteq> [] \<and> m_type record \<noteq> []
           \<and> seqCounter (snd (appendMessage e st roomId params))
               = (if asString (p_id params) \<noteq> [] then seqCounter st
                  else (seqCounter st + 1) mod 100000)
           \<and> fst (appendMessage (e\<lparr>lockOpens := opens', writeOk := ok'\<rparr>) st roomId params)
               = Some record
           \<and> readAllMessages (snd (appendMessage e st roomId params)) roomId
               = (if lockAcquired (lockOpens e) \<and> writeOk e
                  then readAllMessages st roomId @ [record]
                  else readAllMessages st roomId)"
proof -
  have n1: "\<not> includesStr (asString (p_content params)) ''[UNTRUSTED DATA''"
    using clean(1) trim_sublist[of "p_content params"]
    unfolding includesStr_def asString_def by (meson sublist_order.order_trans)
  have n2: "\<not> includesStr (asString (p_content params)) ''<relevant-memories>''"
    using clean(2) trim_sublist[of "p_content params"]
    unfolding includesStr_def asString_def by (meson sublist_order.order_trans)
  define rcd where "rcd = fst (buildRecord e (seqCounter st) params)"
  have ret: "fst (appendMessage e st roomId params) = Some rcd"
    and log: "readAllMessages (snd (appendMessage e st roomId params)) roomId
               = (if lockAcquired (lockOpens e) \<and> writeOk e
                  then readAllMessages st roomId @ [rcd]
                  else readAllMessages st roomId)"
    and cnt: "seqCounter (snd (appendMessage e st roomId params))
               = (if asString (p_id params) \<noteq> [] then seqCounter st
                  else (seqCounter st + 1) mod 100000)"
    using appendMessage_accepted[OF room n1 n2, of e st]
    by (simp_all add: rcd_def buildRecord_value(9))
  have same: "fst (appendMessage (e\<lparr>lockOpens := opens', writeOk := ok'\<rparr>) st roomId params)
               = Some rcd"
    using appendMessage_accepted(1)[OF room n1 n2, of "e\<lparr>lockOpens := opens', writeOk := ok'\<rparr>" st]
    by (simp add: rcd_def buildRecord_io)
  note v = buildRecord_value[of e "seqCounter st" params, folded rcd_def]
  from buildRecord_fields[of e "seqCounter st" params, folded rcd_def]
  have f1: "m_id rcd \<noteq> []" and f2: "m_sender rcd \<noteq> []" and f3: "m_type rcd \<noteq> []"
    by simp_all
  show ?thesis
    by (intro exI[of _ rcd] conjI ret v(1-8) f1 f2 f3 cnt same log)
qed

lemma ex_draft_clean:
  "\<not> sublist ''[UNTRUSTED DATA'' (p_content ex_draft)"
  "\<not> sublist ''<relevant-memories>'' (p_content ex_draft)"
  by (simp_all add: ex_draft_def sublist_Cons_right)

lemma showNat_digit: "n < 10 \<Longrightarrow> showNat n = [''0123456789'' ! n]"
  by (simp add: showNat.simps)

lemma showNat_more: "10 \<le> n \<Longrightarrow> showNat n = showNat (n div 10) @ [''0123456789'' ! (n mod 10)]"
  by (subst showNat.simps) simp

lemma ex_stamp:
  "showInt 1740000000000 = ''1740000000000''"
  "padStart 5 (CHR ''0'') (showNat (Suc 0)) = ''00001''"
proof -
  show "showInt 1740000000000 = ''1740000000000''"
    by (simp add: showInt_def showNat_digit showNat_more)
  have "showNat (Suc 0) = ''1''" by (simp add: showNat_digit)
  then show "padStart 5 (CHR ''0'') (showNat (Suc 0)) = ''00001''"
    by (simp add: padStart_def eval_nat_numeral)
qed

text \<open>
  A clean draft appended while the lock can never be acquired: the record returned is
  the one returned when the append succeeds, and the log is as before.
\<close>

theorem C9_witness:
  "fst (appendMessage ex_io_nolock ex_cache ''room'' ex_draft) = Some ex_record
   \<and> fst (appendMessage ex_io ex_cache ''room'' ex_draft) = Some ex_record
   \<and> readAllMessages (snd (appendMessage ex_io_nolock ex_cache ''room'' ex_draft)) ''room''
       = [ex_msgA, ex_msgB, ex_msgC]"
proof -
  have r: "''room'' \<noteq> []" by simp
  have e: "ex_io_nolock\<lparr>lockOpens := (\<lambda>i. True), writeOk := True\<rparr> = ex_io"
    by (simp add: ex_io_nolock_def ex_io_def)
  have nl: "\<not> lockAcquired (lockOpens ex_io_nolock)"
    by (simp add: ex_io_nolock_def lock_false)
  have l: "readAllMessages ex_cache ''room'' = [ex_msgA, ex_msgB, ex_msgC]"
    by (simp add: readAllMessages_def ex_cache_def san_room)
  have lit: "asString ''Finley'' = ''Finley''" "asString ''ou_user1'' = ''ou_user1''"
    "asString ''hello team'' = ''hello team''"
    by (simp_all add: asString_def trim_def isSpace_def)
  from C9_append_result_hides_write_outcome[OF r ex_draft_clean,
      where e=ex_io_nolock and st=ex_cache and opens'="\<lambda>i. True" and ok'=True]
  obtain rcd where rec:
    "fst (appendMessage ex_io_nolock ex_cache ''room'' ex_draft) = Some rcd"
    "m_ts rcd = (case p_ts ex_draft of None \<Rightarrow> clock ex_io_nolock
                    | Some k \<Rightarrow> if k = 0 then clock ex_io_nolock else k)"
    "m_id rcd
       = (if asString (p_id ex_draft) \<noteq> [] then asString (p_id ex_draft)
          else ''m_'' @ showInt (if m_ts rcd = 0 then clock ex_io_nolock else m_ts rcd)
               @ ''_'' @ padStart 5 (CHR ''0'') (showNat ((seqCounter ex_cache + 1) mod 100000))
               @ ''_'' @ rand ex_io_nolock)"
    "m_sender rcd
       = (if asString (p_sender ex_draft) \<noteq> [] then asString (p_sender ex_draft)
          else ''unknown'')"
    "m_senderId rcd = asString (p_senderId ex_draft)"
    "m_sourceAgent rcd = asString (p_sourceAgent ex_draft)"
    "m_content rcd = asString (p_content ex_draft)"
    "m_mentions rcd = filter (\<lambda>x. x \<noteq> []) (p_mentions ex_draft)"
    "m_type rcd
       = (if asString (p_type ex_draft) \<noteq> [] then asString (p_type ex_draft)
          else ''message'')"
    "fst (appendMessage (ex_io_nolock\<lparr>lockOpens := (\<lambda>i. True), writeOk := True\<rparr>)
            ex_cache ''room'' ex_draft) = Some rcd"
    "readAllMessages (snd (appendMessage ex_io_nolock ex_cache ''room'' ex_draft)) ''room''
       = (if lockAcquired (lockOpens ex_io_nolock) \<and> writeOk ex_io_nolock
          then readAllMessages ex_cache ''room'' @ [rcd]
          else readAllMessages ex_cache ''room'')"
    by blast
  have ts: "m_ts rcd = 1740000000000"
    using rec(2) by (simp add: ex_draft_def ex_io_nolock_def)
  have "rcd = ex_record"
    using rec(3-9) ts
    by (intro message.equality)
       (simp_all add: ex_record_def ex_draft_def ex_io_nolock_def ex_cache_def asString_ids lit
          ex_stamp)
  with rec(1,10,11) nl l show ?thesis by (simp add: e)
qed

subsection \<open>Watermarks and unread messages\<close>

lemma findIndexFrom_first:
  assumes "\<forall>x\<in>set pre. \<not> P x" "P m"
  shows "findIndexFrom P (pre @ m # post) i = i + int (length pre)"
  using assms by (induction pre arbitrary: i) auto

lemma markAsRead_watermark:
  assumes "roomId \<noteq> []" "agentId \<noteq> []" "lockAcquired (lockOpens e)" "writeOk e"
    and "assignsOwn (getWatermarks st roomId agentId) agentId"
  shows "getWatermarks (markAsRead e st roomId agentId upId upTs) roomId agentId
           = Some \<lparr>lastReadId = (if asString upId \<noteq> [] then asString upId
                                else case getWatermarks st roomId agentId of
                                       None \<Rightarrow> [] | Some w \<Rightarrow> lastReadId w),
                   lastReadTs = jsonNumber (orNow upTs (clock e))\<rparr>"
    and "readAllMessages (markAsRead e st roomId agentId upId upTs) r = readAllMessages st r"
  using assms
  by (auto simp: markAsRead_def getWatermarks_def readAllMessages_def withFileLock_def
      writeJsonAtomic_def setProp_def readProp_def Let_def split: option.splits)

text \<open>
  With the agent id \<open>__proto__\<close> and no own property of that name in the file, the
  assignment sets the prototype of the parsed object and the file keeps its content.
\<close>

lemma markAsRead_proto:
  assumes "getWatermarks st roomId ''__proto__'' = None"
  shows "markAsRead e st roomId ''__proto__'' upId upTs = st"
  using assms
  by (simp add: markAsRead_def getWatermarks_def withFileLock_def writeJsonAtomic_def
      setProp_def assignsOwn_def Let_def)

text \<open>
  C3, amended. Let \<open>m\<close> be a message of the room's log with a non-empty trimmed id,
  the ids of the log being distinct, and let \<open>markAsRead(room, agent, m.id, m.ts)\<close> run
  with non-empty room and agent, the agent id not being \<open>__proto__\<close>, the lock
  acquired and the watermark file written. Then \<open>getUnreadMessages(room, agent)\<close> is
  exactly the list of the messages appended after \<open>m\<close> whose \<open>sourceAgent\<close> is not the
  agent, in log order: it excludes \<open>m\<close> and all messages before it, and includes every
  later message not written by the agent itself.
\<close>

theorem C3_unread_after_mark:
  assumes room: "roomId \<noteq> []" and agent: "agentId \<noteq> []"
    and proto: "agentId \<noteq> ''__proto__''"
    and lock: "lockAcquired (lockOpens e)" and wr: "writeOk e"
    and log: "readAllMessages st roomId = pre @ m # post"
    and ids: "distinct (map m_id (pre @ m # post))"
    and idok: "asString (m_id m) = m_id m" "m_id m \<noteq> []"
  shows "getUnreadMessages (markAsRead e st roomId agentId (m_id m) (Finite (m_ts m)))
            roomId agentId
           = filter (\<lambda>x. m_sourceAgent x \<noteq> agentId) post
         \<and> m \<notin> set (getUnreadMessages
                (markAsRead e st roomId agentId (m_id m) (Finite (m_ts m))) roomId agentId)
         \<and> (\<forall>x\<in>set pre. x \<notin> set (getUnreadMessages
                (markAsRead e st roomId agentId (m_id m) (Finite (m_ts m))) roomId agentId))
         \<and> (\<forall>x\<in>set post. m_sourceAgent x \<noteq> agentId \<longrightarrow>
                x \<in> set (getUnreadMessages
                  (markAsRead e st roomId agentId (m_id m) (Finite (m_ts m))) roomId agentId))"
proof -
  let ?st = "markAsRead e st roomId agentId (m_id m) (Finite (m_ts m))"
  have own: "assignsOwn (getWatermarks st roomId agentId) agentId"
    using proto by (simp add: assignsOwn_def)
  have w: "getWatermarks ?st roomId agentId
             = Some \<lparr>lastReadId = m_id m,
                     lastReadTs = Some (if m_ts m = 0 then clock e else m_ts m)\<rparr>"
    using markAsRead_watermark(1)[OF room agent lock wr own, of "m_id m" "Finite (m_ts m)"] idok
    by (simp add: orNow_def jsonNumber_def)
  have l: "readAllMessages ?st roomId = pre @ m # post"
    using markAsRead_watermark(2)[OF room agent lock wr own] log by simp
  have np: "\<forall>x\<in>set pre. \<not> (m_id x = m_id m)" using ids by (force simp: image_iff)
  have idx: "findIndex (\<lambda>x. m_id x = m_id m) (pre @ m # post) = int (length pre)"
    using findIndexFrom_first[of pre "\<lambda>x. m_id x = m_id m" m post 0] np
    by (simp add: findIndex_def)
  have main: "getUnreadMessages ?st roomId agentId = filter (\<lambda>x. m_sourceAgent x \<noteq> agentId) post"
    using room agent idok(2)
    by (simp add: getUnreadMessages_def w l idx readProp_def Let_def nat_add_distrib)
  have d: "distinct (pre @ m # post)" using ids by (rule distinct_map[THEN iffD1, THEN conjunct1])
  have "m \<notin> set post" "\<forall>x\<in>set pre. x \<notin> set post" using d by auto
  then show ?thesis unfolding main by auto
qed

text \<open>
  The researcher marks the second of three messages as read: the third is unread, the
  first two are not.
\<close>

theorem C3_witness:
  "getUnreadMessages (markAsRead ex_io ex_cache ''room'' ''researcher'' ''m2'' (Finite 2000))
      ''room'' ''researcher'' = [ex_msgC]"
proof -
  have r: "''room'' \<noteq> []" and a: "''researcher'' \<noteq> []"
    and p: "''researcher'' \<noteq> ''__proto__''" by simp_all
  have lk: "lockAcquired (lockOpens ex_io)" and wr: "writeOk ex_io"
    by (simp_all add: ex_io_def lock_true)
  have log: "readAllMessages ex_cache ''room'' = [ex_msgA] @ ex_msgB # [ex_msgC]"
    by (simp add: readAllMessages_def ex_cache_def san_room)
  have ids: "distinct (map m_id ([ex_msgA] @ ex_msgB # [ex_msgC]))"
    by (simp add: ex_msgA_def ex_msgB_def ex_msgC_def)
  have idok: "asString (m_id ex_msgB) = m_id ex_msgB" "m_id ex_msgB \<noteq> []"
    by (simp_all add: ex_msgB_def asString_ids)
  from C3_unread_after_mark[OF r a p lk wr log ids idok]
  show ?thesis by (simp add: ex_msgB_def ex_msgC_def)
qed

text \<open>
  The builder marks the first message as read: the second message, appended after it,
  was written by the builder and is not among the unread ones.
\<close>

theorem C3_counterexample:
  "readAllMessages ex_cache ''room'' = [ex_msgA, ex_msgB, ex_msgC]
   \<and> ex_msgB \<notin> set (getUnreadMessages
        (markAsRead ex_io ex_cache ''room'' ''builder'' ''m1'' (Finite 1000))
        ''room'' ''builder'')"
proof -
  have r: "''room'' \<noteq> []" and a: "''builder'' \<noteq> []" by simp_all
  have lk: "lockAcquired (lockOpens ex_io)" and wr: "writeOk ex_io"
    by (simp_all add: ex_io_def lock_true)
  have own: "assignsOwn (getWatermarks ex_cache ''room'' ''builder'') ''builder''"
    by (simp add: assignsOwn_def)
  have log: "readAllMessages ex_cache ''room'' = [ex_msgA, ex_msgB, ex_msgC]"
    by (simp add: readAllMessages_def ex_cache_def san_room)
  have w: "getWatermarks (markAsRead ex_io ex_cache ''room'' ''builder'' ''m1'' (Finite 1000))
              ''room'' ''builder''
             = Some \<lparr>lastReadId = ''m1'', lastReadTs = Some 1000\<rparr>"
    using markAsRead_watermark(1)[OF r a lk wr own, of "''m1''" "Finite 1000"]
    by (simp add: asString_ids orNow_def jsonNumber_def)
  have l: "readAllMessages (markAsRead ex_io ex_cache ''room'' ''builder'' ''m1'' (Finite 1000))
              ''room'' = [ex_msgA, ex_msgB, ex_msgC]"
    using markAsRead_watermark(2)[OF r a lk wr own] log by simp
  have "getUnreadMessages (markAsRead ex_io ex_cache ''room'' ''builder'' ''m1'' (Finite 1000))
            ''room'' ''builder'' = [ex_msgC]"
    unfolding getUnreadMessages_def w l
    by (simp add: findIndex_def readProp_def Let_def ex_msgA_def ex_msgB_def ex_msgC_def)
  then show ?thesis using log by (simp add: ex_msgB_def ex_msgC_def)
qed

text \<open>
  C10, amended. When \<open>markAsRead\<close> runs with non-empty room and an agent id that is
  neither empty nor \<open>__proto__\<close>, acquires the lock and writes the watermark file, the
  agent has a watermark afterwards. An empty \<open>upToMessageId\<close> keeps the \<open>lastReadId\<close>
  stored before (empty when there was none). A zero or non-numeric \<open>upToTs\<close> sets
  \<open>lastReadTs\<close> to the clock. The stored \<open>lastReadTs\<close> is a positive number when the
  clock is positive and \<open>upToTs\<close> is zero, not a number or a positive finite number; a
  negative \<open>upToTs\<close> is stored as it is, and an infinite one is stored as \<open>null\<close>.
\<close>

theorem C10_markAsRead_watermark:
  assumes room: "roomId \<noteq> []" and agent: "agentId \<noteq> []"
    and proto: "agentId \<noteq> ''__proto__''"
    and lock: "lockAcquired (lockOpens e)" and wr: "writeOk e"
  shows "\<exists>w. getWatermarks (markAsRead e st roomId agentId upToMessageId upToTs) roomId agentId
                = Some w
          \<and> (asString upToMessageId = [] \<longrightarrow>
               lastReadId w = (case getWatermarks st roomId agentId of
                                 None \<Rightarrow> [] | Some w0 \<Rightarrow> lastReadId w0))
          \<and> (upToTs = NaN \<or> upToTs = Finite 0 \<longrightarrow> lastReadTs w = Some (clock e))
          \<and> (0 < clock e \<and> (upToTs = NaN \<or> (\<exists>n. upToTs = Finite n \<and> 0 \<le> n))
               \<longrightarrow> (\<exists>n. lastReadTs w = Some n \<and> 0 < n))
          \<and> (\<forall>n. upToTs = Finite n \<and> n < 0 \<longrightarrow> lastReadTs w = Some n)
          \<and> (upToTs = PosInfinity \<or> upToTs = NegInfinity \<longrightarrow> lastReadTs w = None)"
proof -
  have own: "assignsOwn (getWatermarks st roomId agentId) agentId"
    using proto by (simp add: assignsOwn_def)
  show ?thesis
    using markAsRead_watermark(1)[OF room agent lock wr own, of upToMessageId upToTs]
    by (auto simp: orNow_def jsonNumber_def split: option.splits jsNumber.splits)
qed

text \<open>The main agent marks as read with neither id nor time.\<close>

theorem C10_witness:
  "map_option lastReadId
      (getWatermarks (markAsRead ex_io ex_cache ''room'' ''main'' [] NaN) ''room'' ''main'')
     = Some ''m1''
   \<and> map_option lastReadTs
      (getWatermarks (markAsRead ex_io ex_cache ''room'' ''main'' [] NaN) ''room'' ''main'')
     = Some (Some 1740000000000)"
proof -
  have r: "''room'' \<noteq> []" and a: "''main'' \<noteq> []" and p: "''main'' \<noteq> ''__proto__''"
    by simp_all
  have lk: "lockAcquired (lockOpens ex_io)" and wr: "writeOk ex_io"
    by (simp_all add: ex_io_def lock_true)
  have w0: "getWatermarks ex_cache ''room'' ''main''
              = Some \<lparr>lastReadId = ''m1'', lastReadTs = Some 1000\<rparr>"
    by (simp add: getWatermarks_def ex_cache_def san_room)
  from C10_markAsRead_watermark[OF r a p lk wr, of ex_cache "[]" NaN]
  show ?thesis by (auto simp: w0 asString_ids ex_io_def)
qed

text \<open>A call with the negative time \<open>-5\<close> stores it as the watermark.\<close>

theorem C10_counterexample:
  "map_option lastReadTs
      (getWatermarks (markAsRead ex_io ex_cache ''room'' ''main'' ''m2'' (Finite (- 5)))
         ''room'' ''main'')
     = Some (Some (- 5))"
proof -
  have r: "''room'' \<noteq> []" and a: "''main'' \<noteq> []" by simp_all
  have lk: "lockAcquired (lockOpens ex_io)" and wr: "writeOk ex_io"
    by (simp_all add: ex_io_def lock_true)
  have own: "assignsOwn (getWatermarks ex_cache ''room'' ''main'') ''main''"
    by (simp add: assignsOwn_def)
  show ?thesis
    using markAsRead_watermark(1)[OF r a lk wr own, of "''m2''" "Finite (- 5)"]
    by (simp add: orNow_def jsonNumber_def)
qed

subsection \<open>Compaction\<close>

lemma ex_old_all_dropped: "filter (\<lambda>m. m_ts m > 6400000) (map ex_old_msg [0..<200]) = []"
  by (auto simp: filter_empty_conv ex_old_msg_def)

lemma ex_old_member: "ex_old_msg 100 \<in> set (map ex_old_msg [0..<200])"
  by simp


lemma filter_same_length: "length (filter P xs) = length xs \<Longrightarrow> filter P xs = xs"
proof (induction xs)
  case Nil
  then show ?case by simp
next
  case (Cons a xs)
  have le: "length (filter P xs) \<le> length xs" by (rule length_filter_le)
  show ?case
  proof (cases "P a")
    case True
    with Cons show ?thesis by simp
  next
    case False
    with Cons.prems le show ?thesis by simp
  qed
qed

lemma cleanup_result:
  assumes "roomId \<noteq> []" "memberAgents \<noteq> []"
    and "int (length (readAllMessages st roomId)) \<ge> compactThreshold mc"
    and "minReadTsLoop (getWatermarks st roomId) memberAgents None = Some m" "m \<noteq> 0"
    and "lockAcquired (lockOpens e)" "writeOk e"
  shows "readAllMessages (cleanup mc e st roomId memberAgents) roomId
           = filter (\<lambda>x. m_ts x > max m (clock e - cleanupTtlMs mc)) (readAllMessages st roomId)"
proof (cases "length (filter (\<lambda>x. m_ts x > max m (clock e - cleanupTtlMs mc)) (readAllMessages st roomId))
                = length (readAllMessages st roomId)")
  case True
  then have "cleanup mc e st roomId memberAgents = st"
    using assms by (simp add: cleanup_def Let_def)
  then show ?thesis using filter_same_length[OF True] by simp
next
  case False
  then have "cleanup mc e st roomId memberAgents
      = st\<lparr>rooms := (rooms st)(sanitizeRoomId roomId := (rooms st (sanitizeRoomId roomId))
           \<lparr>messagesFile := filter (\<lambda>x. m_ts x > max m (clock e - cleanupTtlMs mc)) (readAllMessages st roomId)\<rparr>)\<rparr>"
    using assms by (simp add: cleanup_def Let_def withFileLock_def)
  then show ?thesis by (simp add: readAllMessages_def)
qed

text \<open>
  C1. The specification, and the comments of \<open>cleanup\<close>, state that \<open>cleanup\<close> keeps
  every message whose timestamp is greater than the minimum \<open>lastReadTs\<close> of the
  members. The code keeps \<open>m.ts > max(minReadTs, now - ttl)\<close> only. Evaluated on the
  default cache with a log of 200 messages older than the retention time and a single
  member whose watermark is 1050: the message with timestamp 1100 is in the log before
  \<open>cleanup\<close> and is gone after it.
\<close>

theorem C1_cleanup_drops_unread_message:
  "ex_old_msg 100 \<in> set (readAllMessages ex_old_cache ''room'')
   \<and> int (length (readAllMessages ex_old_cache ''room'')) \<ge> compactThreshold (newMessageCache None None None)
   \<and> minReadTsLoop (getWatermarks ex_old_cache ''room'') [''main''] None = Some 1050
   \<and> m_ts (ex_old_msg 100) > 1050
   \<and> ex_old_msg 100 \<notin> set (readAllMessages
          (cleanup (newMessageCache None None None) ex_old_io ex_old_cache ''room'' [''main'']) ''room'')"
proof -
  have a: "readAllMessages ex_old_cache ''room'' = map ex_old_msg [0..<200]"
    by (simp add: readAllMessages_def ex_old_cache_def san_room)
  have w: "getWatermarks ex_old_cache ''room''
             = [''main'' \<mapsto> \<lparr>lastReadId = [], lastReadTs = Some 1050\<rparr>]"
    by (simp add: getWatermarks_def ex_old_cache_def san_room)
  have m: "minReadTsLoop (getWatermarks ex_old_cache ''room'') [''main''] None = Some 1050"
    by (simp add: w readProp_def)
  have t: "int (length (readAllMessages ex_old_cache ''room'')) \<ge> compactThreshold (newMessageCache None None None)"
    by (simp add: a newMessageCache_def orDefault_def)
  have k: "max 1050 (clock ex_old_io - cleanupTtlMs (newMessageCache None None None)) = 6400000"
    by (simp add: ex_old_io_def newMessageCache_def orDefault_def)
  have "readAllMessages (cleanup (newMessageCache None None None) ex_old_io ex_old_cache ''room'' [''main'']) ''room''
          = filter (\<lambda>x. m_ts x > max 1050 (clock ex_old_io - cleanupTtlMs (newMessageCache None None None)))
              (readAllMessages ex_old_cache ''room'')"
    by (rule cleanup_result[OF _ _ t m]) (simp_all add: ex_old_io_def lock_true)
  then have c: "readAllMessages (cleanup (newMessageCache None None None) ex_old_io ex_old_cache ''room'' [''main'']) ''room'' = []"
    unfolding k a by (simp only: ex_old_all_dropped)
  show ?thesis using ex_old_member t m by (simp add: a c ex_old_msg_def)
qed
section \<open>Task board\<close>

subsection \<open>Status derivation\<close>






subsection \<open>Updating a task\<close>


lemma getTask_saveBoard [simp]: "getTask n (saveBoard e roomId b fs) r k = getTask n fs r k"
  by (simp add: getTask_def saveBoard_def writeJsonAtomic_def Let_def)

lemma historyDir_saveBoard [simp]:
  "historyDir (saveBoard e roomId b fs d) = historyDir (fs d)"
  by (simp add: saveBoard_def writeJsonAtomic_def Let_def)

lemma activeDir_saveBoard [simp]:
  "activeDir (saveBoard e roomId b fs d) = activeDir (fs d)"
  by (simp add: saveBoard_def writeJsonAtomic_def Let_def)

lemma getTask_putActive:
  "getTask n (putActive roomId taskId t fs) roomId taskId = Some t"
  by (simp add: getTask_def putActive_def Let_def update_conv' migrateLegacyTask_def)

lemma task_literals:
  "asString ''T-1'' = ''T-1''" "sanitizeTaskId ''T-1'' = ''T-1''"
  "asString ''researcher'' = ''researcher''" "asString ''main'' = ''main''"
  "asString ''fine'' = ''fine''" "asString ''demo'' = ''demo''" "asString ''dup'' = ''dup''"
  "toLowerCase (asString ''REVIEW_OK'') = ''review_ok''"
  "toLowerCase (asString ''review_ok'') = ''review_ok''"
  "toLowerCase (asString ''done'') = ''done''"
  "toLowerCase (asString ''in_progress'') = ''in_progress''"
  "asString ''constructor'' = ''constructor''"
  by (simp_all add: asString_def sanitizeTaskId_def trim_def isSpace_def toLowerCase_def
      lowerChar_def)



lemma updateSlots_inherited:
  "actor \<in> set objectPrototypeMembers \<Longrightarrow> map_of slots actor = None \<Longrightarrow>
     updateSlots slots actor status nt now = slots"
  by (simp add: updateSlots_def readProp_def Let_def)





subsection \<open>Creating a task twice\<close>

lemma createTask_created:
  assumes first: "createTask tb e fs roomId params = (Created t, fs1)"
  shows "roomId \<noteq> []" "asString (cp_taskId params) \<noteq> []"
    "\<exists>b. fs1 = saveBoard e roomId b
            (snd (writeJsonAtomic (writeOk e) (putActive roomId (asString (cp_taskId params)) t) fs))"
    "length (t_globalHistory t) = 1" "t_slots t = []"
proof -
  have v: "roomId \<noteq> []" "asString (cp_taskId params) \<noteq> []"
    using first by (auto simp: createTask_def Let_def split: if_splits)
  have l: "lockAcquired (lockOpens e)"
    using first v by (auto simp: createTask_def Let_def withFileLock_def split: if_splits)
  have u: "createTaskLocked tb e roomId params (fs, None) = (fs1, Some (Created t))"
    using first v l
    by (cases "createTaskLocked tb e roomId params (fs, None)")
       (auto simp: createTask_def Let_def withFileLock_def split: option.splits)
  show "roomId \<noteq> []" "asString (cp_taskId params) \<noteq> []" by (rule v)+
  show "\<exists>b. fs1 = saveBoard e roomId b
            (snd (writeJsonAtomic (writeOk e) (putActive roomId (asString (cp_taskId params)) t) fs))"
    using u unfolding createTaskLocked_def
    by (auto simp: Let_def split: if_splits option.splits)
  show "length (t_globalHistory t) = 1" "t_slots t = []"
    using u unfolding createTaskLocked_def
    by (auto simp: Let_def split: if_splits option.splits)
qed

text \<open>
  C7, amended. A successful \<open>createTask\<close> whose task file was written, followed by a
  second \<open>createTask\<close> with the same task id that acquires the lock, makes the second
  call return \<open>ok = false\<close> with reason \<open>already_exists\<close> provided the room's active
  task count, which now includes the task, is still below the ceiling; at the ceiling
  the second call returns \<open>max_active_reached\<close>. Either way the store is unchanged and
  the task is the one created, with no slots and a \<open>globalHistory\<close> of length exactly 1.
\<close>

theorem C7_duplicate_create:
  assumes first: "createTask tb e1 fs roomId params = (Created t, fs1)"
    and wr: "writeOk e1"
    and lock2: "lockAcquired (lockOpens e2)"
    and same: "asString (cp_taskId params2) = asString (cp_taskId params)"
  shows "createTask tb e2 fs1 roomId params2
           = (if int (length (listActiveTasks (clock e2) fs1 roomId)) < maxActiveTasks tb
              then AlreadyExists t
              else MaxActiveReached (length (listActiveTasks (clock e2) fs1 roomId)), fs1)
         \<and> (int (length (listActiveTasks (clock e2) fs1 roomId)) < maxActiveTasks tb
              \<longrightarrow> \<not> ok (fst (createTask tb e2 fs1 roomId params2))
                \<and> reason (fst (createTask tb e2 fs1 roomId params2)) = ''already_exists'')
         \<and> getTask n fs1 roomId (asString (cp_taskId params)) = Some t
         \<and> length (t_globalHistory t) = 1
         \<and> t_slots t = []"
proof -
  note c = createTask_created[OF first]
  from c(3) wr obtain b where
    fs1: "fs1 = saveBoard e1 roomId b (putActive roomId (asString (cp_taskId params)) t fs)"
    by (auto simp: writeJsonAtomic_def)
  have g: "\<And>n. getTask n fs1 roomId (asString (cp_taskId params)) = Some t"
    unfolding fs1 by (simp add: getTask_putActive)
  have second: "createTask tb e2 fs1 roomId params2
           = (if int (length (listActiveTasks (clock e2) fs1 roomId)) < maxActiveTasks tb
              then AlreadyExists t
              else MaxActiveReached (length (listActiveTasks (clock e2) fs1 roomId)), fs1)"
    using c(1,2) lock2 same g[of "clock e2"]
    by (simp add: createTask_def createTaskLocked_def withFileLock_def Let_def)
  show ?thesis unfolding second using g c(4,5) by simp
qed

lemma ex_create_eval:
  "createTask (newTaskBoard None True) ex_io ex_tasks0 ''room'' ex_create
     = (Created ex_task1, ex_tasks1)"
proof -
  have "fst (createTask (newTaskBoard None True) ex_io ex_tasks0 ''room'' ex_create)
          = Created ex_task1"
    by (simp add: createTask_def createTaskLocked_def withFileLock_def lock_true getTask_def
        listActiveTasks_def newTaskBoard_def orDefault_def san_room task_literals ex_io_def
        ex_tasks0_def ex_create_def ex_task1_def orElse_def asString_ids Let_def)
  then show ?thesis unfolding ex_tasks1_def by (metis prod.collapse)
qed

lemma ex_create_full_eval:
  "createTask (newTaskBoard (Some 1) True) ex_io ex_tasks0 ''room'' ex_create
     = (Created ex_task1, ex_tasks1_full)"
proof -
  have "fst (createTask (newTaskBoard (Some 1) True) ex_io ex_tasks0 ''room'' ex_create)
          = Created ex_task1"
    by (simp add: createTask_def createTaskLocked_def withFileLock_def lock_true getTask_def
        listActiveTasks_def newTaskBoard_def orDefault_def san_room task_literals ex_io_def
        ex_tasks0_def ex_create_def ex_task1_def orElse_def asString_ids Let_def)
  then show ?thesis unfolding ex_tasks1_full_def by (metis prod.collapse)
qed

lemma ex_active_count:
  assumes "createTask tb ex_io ex_tasks0 ''room'' ex_create = (Created ex_task1, fs1)"
  shows "length (listActiveTasks n fs1 ''room'') = 1"
proof -
  from createTask_created(3)[OF assms] obtain b where
    "fs1 = saveBoard ex_io ''room'' b (putActive ''room'' (asString (cp_taskId ex_create)) ex_task1 ex_tasks0)"
    by (auto simp: writeJsonAtomic_def ex_io_def)
  then show ?thesis
    by (simp add: listActiveTasks_def putActive_def san_room task_literals ex_tasks0_def
        ex_create_def fileTaskId_def ex_task1_def Let_def)
qed

text \<open>Task \<open>T-1\<close> created twice in an empty room with the default ceiling of 10.\<close>

theorem C7_witness:
  "createTask (newTaskBoard None True) ex_io ex_tasks1 ''room'' ex_create_dup
     = (AlreadyExists ex_task1, ex_tasks1)
   \<and> reason (fst (createTask (newTaskBoard None True) ex_io ex_tasks1 ''room'' ex_create_dup))
       = ''already_exists''
   \<and> length (t_globalHistory ex_task1) = 1"
proof -
  have wr: "writeOk ex_io" and lk: "lockAcquired (lockOpens ex_io)"
    by (simp_all add: ex_io_def lock_true)
  have same: "asString (cp_taskId ex_create_dup) = asString (cp_taskId ex_create)"
    by (simp add: ex_create_dup_def ex_create_def)
  have below: "int (length (listActiveTasks (clock ex_io) ex_tasks1 ''room''))
                 < maxActiveTasks (newTaskBoard None True)"
    by (simp add: ex_active_count[OF ex_create_eval] newTaskBoard_def orDefault_def)
  from C7_duplicate_create[OF ex_create_eval wr lk same, of 0] below
  show ?thesis by simp
qed

text \<open>
  The same two calls on a board whose ceiling is 1: the first call succeeds and fills
  the room, and the second is refused for the ceiling, not as a duplicate.
\<close>

theorem C7_counterexample:
  "ok (fst (createTask (newTaskBoard (Some 1) True) ex_io ex_tasks0 ''room'' ex_create))
   \<and> reason (fst (createTask (newTaskBoard (Some 1) True) ex_io ex_tasks1_full ''room''
                  ex_create_dup)) = ''max_active_reached''"
proof -
  note c = ex_active_count[OF ex_create_full_eval]
  have "fst (createTask (newTaskBoard (Some 1) True) ex_io ex_tasks1_full ''room'' ex_create_dup)
          = MaxActiveReached 1"
    by (simp add: createTask_def createTaskLocked_def withFileLock_def lock_true c
        newTaskBoard_def orDefault_def task_literals ex_create_dup_def Let_def ex_io_def)
  then show ?thesis by (simp add: ex_create_full_eval)
qed

section \<open>Session routes\<close>

lemma resolveAgentSessionKey_result:
  "sr_sessionKey (resolveAgentSessionKey resolveAgentRoute rm agentId)
     = (if isSafeTeamroomSessionKey
             (candidateSessionKey resolveAgentRoute rm (resolveAccountForAgent rm agentId))
             rm agentId
        then candidateSessionKey resolveAgentRoute rm (resolveAccountForAgent rm agentId)
        else [])"
  by (simp add: resolveAgentSessionKey_def Let_def)

lemma agent_mismatch_rejected:
  "sr_sessionKey (resolveAgentSessionKey ex_route ex_room ''builder'') = []"
  by (simp add: resolveAgentSessionKey_def isSafeTeamroomSessionKey_def
      candidateSessionKey_def ex_route_def ex_room_def asString_def trim_def isSpace_def
      toLowerCase_def lowerChar_def includesStr_def startsWith_def sublist_Cons_right
      Let_def)

text \<open>
  C8. The room's conversation identifier is \<open>oc_room1\<close>, and the routing collaborator
  answers with the main agent's session key of the conversation \<open>oc_room12\<close>. The key
  does not reference the room's conversation, and \<open>resolveAgentSessionKey\<close> returns it
  as the session key for the main agent instead of the empty key: the check asks only
  that the room id occurs somewhere in the key.
\<close>

theorem C8_foreign_room_key_accepted:
  "room_id ex_room = ''oc_room1''
   \<and> candidateSessionKey ex_route_other ex_room (resolveAccountForAgent ex_room ''main'')
       = ''agent:main:feishu:group:oc_room12''
   \<and> keyConversationId ''agent:main:feishu:group:oc_room12'' = Some ''oc_room12''
   \<and> keyConversationId ''agent:main:feishu:group:oc_room12'' \<noteq> Some (room_id ex_room)
   \<and> isSafeTeamroomSessionKey ''agent:main:feishu:group:oc_room12'' ex_room ''main''
   \<and> sr_sessionKey (resolveAgentSessionKey ex_route_other ex_room ''main'')
       = ''agent:main:feishu:group:oc_room12''"
proof -
  have l: "toLowerCase (asString ''agent:main:feishu:group:oc_room12'')
             = ''agent:main:feishu:group:oc_room12''"
    "toLowerCase (asString ''oc_room1'') = ''oc_room1''"
    "toLowerCase (asString ''main'') = ''main''"
    "asString ''agent:main:feishu:group:oc_room12'' = ''agent:main:feishu:group:oc_room12''"
    "toLowerCase ''agent:main:feishu:group:oc_room12'' = ''agent:main:feishu:group:oc_room12''"
    by (simp_all add: asString_def trim_def isSpace_def toLowerCase_def lowerChar_def)
  have r: "room_id ex_room = ''oc_room1''" by (simp add: ex_room_def)
  have c: "candidateSessionKey ex_route_other ex_room (resolveAccountForAgent ex_room ''main'')
             = ''agent:main:feishu:group:oc_room12''"
    by (simp add: candidateSessionKey_def ex_route_other_def l)
  have k: "keyConversationId ''agent:main:feishu:group:oc_room12'' = Some ''oc_room12''"
    by (simp add: keyConversationId_def l)
  have s: "isSafeTeamroomSessionKey ''agent:main:feishu:group:oc_room12'' ex_room ''main''"
    by (simp add: isSafeTeamroomSessionKey_def l r includesStr_def startsWith_def
        sublist_Cons_right Let_def)
  have v: "sr_sessionKey (resolveAgentSessionKey ex_route_other ex_room ''main'')
             = ''agent:main:feishu:group:oc_room12''"
    by (simp add: resolveAgentSessionKey_result c s)
  from r c k s v show ?thesis by simp
qed

end
